theory Spec2Isabelle
  imports Complex_Main
begin

section \<open>Common conventions\<close>

text \<open>
  The program is asynchronous Python over an SQLAlchemy session.  Every source function
  that may raise returns an \<open>outcome\<close>: \<open>Raised m\<close> stands for an exception \<open>e\<close> with
  \<open>str(e) = m\<close> (the handlers of the source only ever look at \<open>str(e)\<close>), \<open>Returned v\<close> for
  a normal return.  Python floats are modelled by \<open>real\<close>; Python \<open>str\<close> by \<open>string\<close>
  (non-ASCII letters of the message literals are written as their UTF-8 bytes).
\<close>

datatype 'a outcome = Raised string | Returned 'a

section \<open>Intent resolver (app/ai/semantic.py, app/ai/llm.py, app/config.py)\<close>

text \<open>The four embedding settings of \<open>Settings\<close> in config.py and their defaults.\<close>

record Settings =
  similarity_threshold :: real
  combined_similarity_threshold :: real
  confidence_gap_threshold :: real
  high_confidence_threshold :: real

definition settings :: Settings where
  "settings = \<lparr>similarity_threshold = 0.45, combined_similarity_threshold = 0.30,
     confidence_gap_threshold = 0.05, high_confidence_threshold = 0.65\<rparr>"

text \<open>
  \<open>SemanticMatch\<close>: the dataclass of semantic.py.  A candidate \<open>{"name": n, "score": s}\<close> is
  the pair \<open>(n, s)\<close>.
\<close>

record SemanticMatch =
  function_name :: string
  similarity :: real
  match_method :: string
  top_candidates :: "(string \<times> real) list"

text \<open>
  The rows of \<open>semantic_functions\<close> and \<open>semantic_function_embeddings\<close>.  The vectors and
  the sentence-transformer are outside the model: a row carries the cosine similarity of
  its vector with the query vector.  \<open>fn_combined_sim = None\<close> is a row whose \<open>embedding\<close>
  column is empty (\<open>if fn.embedding\<close> is false).
\<close>

record SemanticFunction =
  fn_id :: int
  fn_name :: string
  fn_description :: string
  fn_combined_sim :: "real option"

record SemanticFunctionEmbedding =
  emb_function_id :: int
  embedding_type :: string
  emb_sim :: real

text \<open>\<open>numpy\<close>'s \<open>.max()\<close> of a non-empty array; the callers guard the empty case.\<close>

fun array_max :: "real list \<Rightarrow> real" where
  "array_max [] = 0"
| "array_max (x # xs) = fold max xs x"

text \<open>Python's \<open>round(s, 4)\<close>: to four decimals, ties to the even neighbour.\<close>

definition round4 :: "real \<Rightarrow> real" where
  "round4 s =
     (let y = s * 10000; f = \<lfloor>y\<rfloor>; d = y - of_int f
      in of_int (if d < 1 / 2 then f else if 1 / 2 < d then f + 1
                 else if even f then f else f + 1) / 10000)"

text \<open>The body of the loop \<open>for fn in functions\<close> of \<open>select_function\<close>: the score of one
  function, from its individual embeddings when it has some, from the combined one otherwise.\<close>

definition fn_score :: "SemanticFunctionEmbedding list \<Rightarrow> SemanticFunction \<Rightarrow> real" where
  "fn_score all_individual fn =
     (let indiv = filter (\<lambda>e. emb_function_id e = fn_id fn) all_individual
      in if indiv \<noteq> [] then
           (let desc_embs = filter (\<lambda>e. embedding_type e = ''description'') indiv;
                example_embs = filter (\<lambda>e. embedding_type e = ''example'') indiv;
                desc_sim = (if desc_embs \<noteq> [] then array_max (map emb_sim desc_embs) else 0);
                max_example_sim =
                  (if example_embs \<noteq> [] then array_max (map emb_sim example_embs) else 0)
            in 0.6 * max_example_sim + 0.4 * desc_sim)
         else (case fn_combined_sim fn of Some s \<Rightarrow> s | None \<Rightarrow> 0))"

text \<open>\<open>scores.sort(key=lambda x: x[1], reverse=True)\<close>: a stable sort, descending.\<close>

definition rank_functions ::
  "SemanticFunctionEmbedding list \<Rightarrow> SemanticFunction list \<Rightarrow> (SemanticFunction \<times> real) list"
where
  "rank_functions all_individual functions =
     sort_key (\<lambda>p. - snd p) (map (\<lambda>fn. (fn, fn_score all_individual fn)) functions)"

definition candidates_of :: "(SemanticFunction \<times> real) list \<Rightarrow> (string \<times> real) list" where
  "candidates_of scores = map (\<lambda>(fn, s). (fn_name fn, round4 s)) (take 3 scores)"

text \<open>\<open>threshold = settings.similarity_threshold if has_individual else
  settings.combined_similarity_threshold\<close>.\<close>

definition base_threshold :: "Settings \<Rightarrow> bool \<Rightarrow> real" where
  "base_threshold cfg has_individual =
     (if has_individual then similarity_threshold cfg else combined_similarity_threshold cfg)"

text \<open>
  \<open>classify_intent\<close> of llm.py.  The first argument is what \<open>_chat_completion\<close> does with the
  prompt: it raises, or it returns the provider's text.  \<open>functions\<close> is the dictionary
  \<open>{name: description}\<close>.
\<close>

definition classify_intent :: "string outcome \<Rightarrow> (string \<times> string) list \<Rightarrow> string option" where
  "classify_intent llm_reply functions =
     (case llm_reply of
        Raised e \<Rightarrow> None
      | Returned result \<Rightarrow>
          if result = ''NONE'' \<or> result \<notin> fst ` set functions then None else Some result)"

text \<open>The read of \<open>semantic_function_embeddings\<close>, inside \<open>try\<close>: \<open>all_individual = []\<close>
  when it raises.\<close>

definition individual_rows ::
  "SemanticFunctionEmbedding list outcome \<Rightarrow> SemanticFunctionEmbedding list"
where
  "individual_rows emb_rows = (case emb_rows of Raised e \<Rightarrow> [] | Returned rows \<Rightarrow> rows)"

text \<open>
  Steps 2 to 4 of \<open>select_function\<close>.  \<open>fn_rows\<close> and \<open>emb_rows\<close> are the two reads of the
  session (the first propagates its exception, the second is wrapped in \<open>try\<close>), and
  \<open>llm_reply\<close> the behaviour of the generative provider.  The second component of the
  result counts the requests sent to the generative provider.
\<close>

definition embedding_tiers ::
  "Settings \<Rightarrow> SemanticFunction list outcome \<Rightarrow> SemanticFunctionEmbedding list outcome \<Rightarrow>
     string outcome \<Rightarrow> SemanticMatch outcome \<times> nat"
where
  "embedding_tiers cfg fn_rows emb_rows llm_reply =
     (case fn_rows of
        Raised e \<Rightarrow> (Raised e, 0)
      | Returned functions \<Rightarrow>
          (let all_individual = individual_rows emb_rows;
               has_individual = (all_individual \<noteq> [])
           in case rank_functions all_individual functions of
                [] \<Rightarrow>
                  (Returned \<lparr>function_name = [], similarity = 0,
                     match_method = ''clarification'', top_candidates = []\<rparr>, 0)
              | (best_fn, best_score) # rest \<Rightarrow>
                  (let scores = (best_fn, best_score) # rest;
                       candidates = candidates_of scores;
                       second_score = (case rest of [] \<Rightarrow> 0 | p # _ \<Rightarrow> snd p);
                       threshold = base_threshold cfg has_individual
                   in if high_confidence_threshold cfg \<le> best_score then
                        (Returned \<lparr>function_name = fn_name best_fn, similarity = best_score,
                           match_method = ''semantic'', top_candidates = candidates\<rparr>, 0)
                      else if threshold \<le> best_score then
                        (let gap = best_score - second_score
                         in if confidence_gap_threshold cfg \<le> gap then
                              (Returned \<lparr>function_name = fn_name best_fn,
                                 similarity = best_score, match_method = ''semantic'',
                                 top_candidates = candidates\<rparr>, 0)
                            else
                              (Returned \<lparr>function_name = fn_name best_fn,
                                 similarity = best_score, match_method = ''semantic'',
                                 top_candidates = candidates\<rparr>, 0))
                      else
                        (let llm_result =
                           (if 0.25 \<le> best_score then
                              classify_intent llm_reply
                                (map (\<lambda>fn. (fn_name fn, fn_description fn)) functions)
                            else None);
                             calls = (if 0.25 \<le> best_score then 1 else 0)
                         in case llm_result of
                              Some (c # cs) \<Rightarrow>
                                (Returned \<lparr>function_name = c # cs, similarity = best_score,
                                   match_method = ''llm_fallback'',
                                   top_candidates = candidates\<rparr>, calls)
                            | _ \<Rightarrow>
                                (Returned \<lparr>function_name = [], similarity = best_score,
                                   match_method = ''clarification'',
                                   top_candidates = candidates\<rparr>, calls)))))"

text \<open>
  \<open>select_function\<close>.  \<open>rule_match\<close> is the value of \<open>_rule_based_match(query)\<close> (the regular
  expressions of \<open>INTENT_RULES\<close> are not modelled); \<open>if rule_match\<close> holds for a non-empty name.
\<close>

definition select_function ::
  "Settings \<Rightarrow> string option \<Rightarrow> SemanticFunction list outcome \<Rightarrow>
     SemanticFunctionEmbedding list outcome \<Rightarrow> string outcome \<Rightarrow> SemanticMatch outcome \<times> nat"
where
  "select_function cfg rule_match fn_rows emb_rows llm_reply =
     (case rule_match of
        Some (c # cs) \<Rightarrow>
          (Returned \<lparr>function_name = c # cs, similarity = 1, match_method = ''rule'',
             top_candidates = [(c # cs, 1)]\<rparr>, 0)
      | _ \<Rightarrow> embedding_tiers cfg fn_rows emb_rows llm_reply)"

section \<open>Text\<close>

text \<open>The non-ASCII letters and the control characters of the message literals.\<close>

definition a_acute :: string where "a_acute = [CHR 0xC3, CHR 0xA1]"
definition e_acute :: string where "e_acute = [CHR 0xC3, CHR 0xA9]"
definition i_acute :: string where "i_acute = [CHR 0xC3, CHR 0xAD]"
definition o_acute :: string where "o_acute = [CHR 0xC3, CHR 0xB3]"
definition u_acute :: string where "u_acute = [CHR 0xC3, CHR 0xBA]"
definition inv_question :: string where "inv_question = [CHR 0xC2, CHR 0xBF]"
definition inv_exclamation :: string where "inv_exclamation = [CHR 0xC2, CHR 0xA1]"
definition newline :: string where "newline = [CHR 0x0A]"
definition dquote :: string where "dquote = [CHR 0x22]"
definition squote :: string where "squote = [CHR 0x27]"

text \<open>\<open>str(n)\<close> for an integer, and the format \<open>:.2f\<close> (two decimals, ties to even).\<close>

fun str_nat :: "nat \<Rightarrow> string" where
  "str_nat n =
     (if n < 10 then [''0123456789'' ! n]
      else str_nat (n div 10) @ [''0123456789'' ! (n mod 10)])"

declare str_nat.simps [simp del]

definition str_int :: "int \<Rightarrow> string" where
  "str_int i = (if i < 0 then ''-'' @ str_nat (nat (- i)) else str_nat (nat i))"

definition fmt_2f :: "real \<Rightarrow> string" where
  "fmt_2f x =
     (let y = \<bar>x\<bar> * 100; f = \<lfloor>y\<rfloor>; d = y - of_int f;
          c = nat (if d < 1 / 2 then f else if 1 / 2 < d then f + 1
                   else if even f then f else f + 1)
      in (if x < 0 then ''-'' else []) @ str_nat (c div 100) @ ''.'' @
         [''0123456789'' ! (c mod 100 div 10), ''0123456789'' ! (c mod 10)])"

text \<open>\<open>", ".join(xs)\<close>.\<close>

fun join_comma :: "string list \<Rightarrow> string" where
  "join_comma [] = []"
| "join_comma [x] = x"
| "join_comma (x # y # ys) = x @ '', '' @ join_comma (y # ys)"

text \<open>Truthiness of an optional integer (\<open>None\<close> and \<open>0\<close> are false) and of an optional
  string (\<open>None\<close> and \<open>""\<close> are false).\<close>

definition truthy_int :: "int option \<Rightarrow> bool" where
  "truthy_int v = (case v of None \<Rightarrow> False | Some n \<Rightarrow> n \<noteq> 0)"

definition truthy_str :: "string option \<Rightarrow> bool" where
  "truthy_str v = (case v of None \<Rightarrow> False | Some s \<Rightarrow> s \<noteq> [])"

section \<open>Storage (app/persistence/models.py)\<close>

text \<open>
  The rows the flow engine reads and writes, with the columns it uses.  Columns that have
  a default (\<open>stock\<close>, \<open>quantity\<close>, \<open>status\<close>, \<open>total\<close>) are taken as populated.
\<close>

record Book =
  book_id :: int
  book_title :: string
  book_author :: string
  book_price :: real
  book_stock :: int

record Cart =
  cart_id :: int
  cart_user_id :: int
  cart_status :: string

record CartItem =
  item_id :: int
  item_cart_id :: int
  item_book_id :: int
  item_quantity :: int

record Order =
  order_id :: int
  order_user_id :: int
  order_status :: string
  order_total :: real
  order_created_at :: int

record OrderItem =
  oi_id :: int
  oi_order_id :: int
  oi_book_id :: int
  oi_quantity :: int
  oi_unit_price :: real

record Payment =
  payment_id :: int
  payment_order_id :: int
  payment_amount :: real
  payment_status :: string

record ExecutionLog =
  log_user_id :: int
  log_session_id :: "int option"
  log_query :: string
  log_matched_function :: string
  log_similarity_score :: real
  log_method :: string
  log_top_candidates :: "(string \<times> real) list option"
  log_state_trace :: "string list option"
  log_result :: string

record database =
  books :: "Book list"
  carts :: "Cart list"
  cart_items :: "CartItem list"
  orders :: "Order list"
  order_items :: "OrderItem list"
  payments :: "Payment list"
  execution_logs :: "ExecutionLog list"

text \<open>
  The \<open>AsyncSession\<close>: \<open>working\<close> is what the open transaction sees (\<open>session.add\<close>, attribute
  assignments and \<open>session.delete\<close> change it), \<open>committed\<close> what the database holds.
  \<open>commit\<close> copies the first onto the second, \<open>rollback\<close> the second onto the first.
\<close>

record session =
  committed :: database
  working :: database

text \<open>
  The places of graph.py and orchestrator.py where the program waits for the database.
  A run's environment says, for each of them, whether the call raises there (and with
  which \<open>str(e)\<close>); it also fixes the value of \<open>random.random()\<close>, the server clock of the
  \<open>created_at\<close> default, and what the generative provider does when asked to word a
  response.
\<close>

datatype site =
    Load_Book | Load_Cart | Load_Cart_Items | Load_Item_Book | Load_Order
  | Add_Flush | Add_Lookup | Remove_Lookup | Remove_Delete
  | Checkout_Flush | Checkout_Cart | Payment_Order | Cancel_Order
  | Persist_Commit | Persist_Rollback | Log_Commit | Log_Rollback | Resolve_Books

record env =
  fault :: "site \<Rightarrow> string option"
  random_draw :: real
  now :: int
  llm_text :: "string outcome"

text \<open>\<open>await session.execute(select ...)\<close> at a site, the rows of the result given.\<close>

definition execute :: "env \<Rightarrow> site \<Rightarrow> 'a list \<Rightarrow> 'a list outcome" where
  "execute ev st rows = (case fault ev st of Some m \<Rightarrow> Raised m | None \<Rightarrow> Returned rows)"

text \<open>SQLAlchemy's \<open>scalar_one_or_none()\<close> and \<open>scalar_one()\<close>, with the messages of its
  \<open>MultipleResultsFound\<close> and \<open>NoResultFound\<close>.\<close>

definition multiple_rows_msg :: string where
  "multiple_rows_msg = ''Multiple rows were found when one or none was required''"

definition multiple_rows_one_msg :: string where
  "multiple_rows_one_msg = ''Multiple rows were found when exactly one was required''"

definition no_row_msg :: string where
  "no_row_msg = ''No row was found when one was required''"

fun scalar_one_or_none :: "'a list \<Rightarrow> 'a option outcome" where
  "scalar_one_or_none [] = Returned None"
| "scalar_one_or_none [x] = Returned (Some x)"
| "scalar_one_or_none (x # y # ys) = Raised multiple_rows_msg"

fun scalar_one :: "'a list \<Rightarrow> 'a outcome" where
  "scalar_one [] = Raised no_row_msg"
| "scalar_one [x] = Returned x"
| "scalar_one (x # y # ys) = Raised multiple_rows_one_msg"

text \<open>The next value of a serial primary key.\<close>

definition next_id :: "int list \<Rightarrow> int" where
  "next_id ids = fold max ids 0 + 1"

section \<open>Flow engine (app/flow/graph.py)\<close>

subsection \<open>State\<close>

text \<open>
  The dictionaries of \<open>FlowState\<close>, each as a record of its optional keys.  \<open>params\<close> has
  the keys \<open>book_id\<close>, \<open>quantity\<close>, \<open>order_id\<close>; the context has \<open>book\<close>, \<open>cart_id\<close>,
  \<open>cart_items\<close> (absent and empty read alike through \<open>ctx.get("cart_items", [])\<close>) and
  \<open>order\<close>; \<open>action_result\<close> has the keys that the actions of graph.py set.
\<close>

record params =
  p_book_id :: "int option"
  p_quantity :: "int option"
  p_order_id :: "int option"

record book_ctx =
  bk_id :: int
  bk_title :: string
  bk_price :: real
  bk_stock :: int

record item_ctx =
  it_book_id :: int
  it_quantity :: int
  it_title :: string
  it_price :: real

record order_ctx =
  oc_id :: int
  oc_status :: string
  oc_total :: real

record ctx =
  c_book :: "book_ctx option"
  c_cart_id :: "int option"
  c_cart_items :: "item_ctx list"
  c_order :: "order_ctx option"

definition empty_ctx :: ctx where
  "empty_ctx = \<lparr>c_book = None, c_cart_id = None, c_cart_items = [], c_order = None\<rparr>"

record action_result =
  r_success :: "bool option"
  r_message :: "string option"
  r_book :: "string option"
  r_quantity :: "int option"
  r_cart_id :: "int option"
  r_order_id :: "int option"
  r_total :: "real option"
  r_items_count :: "nat option"
  r_needs_confirmation :: "bool option"
  r_amount :: "real option"
  r_payment_status :: "string option"
  r_order :: "order_ctx option"

definition empty_result :: action_result where
  "empty_result = \<lparr>r_success = None, r_message = None, r_book = None, r_quantity = None,
     r_cart_id = None, r_order_id = None, r_total = None, r_items_count = None,
     r_needs_confirmation = None, r_amount = None, r_payment_status = None, r_order = None\<rparr>"

text \<open>\<open>{"success": False, "message": m}\<close>.\<close>

definition failure :: "string \<Rightarrow> action_result" where
  "failure m = empty_result\<lparr>r_success := Some False, r_message := Some m\<rparr>"

record FlowState =
  user_id :: int
  flow_function :: string
  query :: string
  flow_params :: params
  flow_ctx :: ctx
  action_result :: action_result
  response :: string
  state_trace :: "string list"
  needs_input :: bool
  missing_fields :: "string list"
  error :: "string option"

subsection \<open>VALIDATE\_INPUT\<close>

definition validate_input :: "FlowState \<Rightarrow> FlowState" where
  "validate_input state =
     (let trace = state_trace state @ [''VALIDATE_INPUT''];
          fn = flow_function state;
          ps = flow_params state;
          missing =
            (if fn = ''add_book_to_cart'' then
               (if \<not> truthy_int (p_book_id ps) then [''book_id''] else [])
             else if fn = ''remove_book_from_cart'' then
               (if \<not> truthy_int (p_book_id ps) then [''book_id''] else [])
             else if fn = ''process_payment'' then []
             else if fn = ''confirm_payment'' then []
             else if fn = ''cancel_order'' then
               (if \<not> truthy_int (p_order_id ps) then [''order_id''] else [])
             else []);
          ps' =
            (if fn = ''add_book_to_cart'' \<and> \<not> truthy_int (p_quantity ps)
             then ps\<lparr>p_quantity := Some 1\<rparr> else ps)
      in state\<lparr>state_trace := trace, needs_input := (missing \<noteq> []),
           missing_fields := missing, flow_params := ps'\<rparr>)"

subsection \<open>LOAD\_CONTEXT\<close>

text \<open>The loop \<open>for item in items\<close> of the checkout branch: one read of \<open>books\<close> per item.\<close>

fun load_cart_items :: "env \<Rightarrow> database \<Rightarrow> CartItem list \<Rightarrow> item_ctx list outcome" where
  "load_cart_items ev db [] = Returned []"
| "load_cart_items ev db (item # items) =
     (case execute ev Load_Item_Book (filter (\<lambda>b. book_id b = item_book_id item) (books db)) of
        Raised m \<Rightarrow> Raised m
      | Returned rows \<Rightarrow>
          (case scalar_one_or_none rows of
             Raised m \<Rightarrow> Raised m
           | Returned book \<Rightarrow>
               (case load_cart_items ev db items of
                  Raised m \<Rightarrow> Raised m
                | Returned rest \<Rightarrow>
                    Returned
                      (\<lparr>it_book_id = item_book_id item, it_quantity = item_quantity item,
                        it_title = (case book of Some b \<Rightarrow> book_title b | None \<Rightarrow> ''Unknown''),
                        it_price = (case book of Some b \<Rightarrow> book_price b | None \<Rightarrow> 0)\<rparr>
                       # rest))))"

text \<open>The active cart of a user: \<open>select(Cart).where(Cart.user_id == user_id,
  Cart.status == "active")\<close> and \<open>scalar_one_or_none()\<close>.\<close>

definition active_cart :: "env \<Rightarrow> database \<Rightarrow> int \<Rightarrow> Cart option outcome" where
  "active_cart ev db uid =
     (case execute ev Load_Cart
             (filter (\<lambda>c. cart_user_id c = uid \<and> cart_status c = ''active'') (carts db)) of
        Raised m \<Rightarrow> Raised m
      | Returned rows \<Rightarrow> scalar_one_or_none rows)"

text \<open>
  The order of the payment and cancellation flows: by id and owner when \<open>order_id\<close> is
  given, otherwise the user's \<open>created\<close> order with the greatest \<open>created_at\<close>
  (\<open>order_by(Order.created_at.desc()).limit(1)\<close>; among equal timestamps the model takes
  the first row of the table).
\<close>

definition target_order :: "env \<Rightarrow> database \<Rightarrow> int \<Rightarrow> int option \<Rightarrow> Order option outcome" where
  "target_order ev db uid oid =
     (if truthy_int oid then
        (case execute ev Load_Order
                (filter (\<lambda>r. Some (order_id r) = oid \<and> order_user_id r = uid) (orders db)) of
           Raised m \<Rightarrow> Raised m
         | Returned rows \<Rightarrow> scalar_one_or_none rows)
      else
        (case execute ev Load_Order
                (take 1 (sort_key (\<lambda>r. - order_created_at r)
                   (filter (\<lambda>r. order_user_id r = uid \<and> order_status r = ''created'')
                      (orders db)))) of
           Raised m \<Rightarrow> Raised m
         | Returned rows \<Rightarrow> scalar_one_or_none rows))"

definition load_context :: "env \<Rightarrow> database \<Rightarrow> FlowState \<Rightarrow> FlowState outcome" where
  "load_context ev db state =
     (let trace = state_trace state @ [''LOAD_CONTEXT''];
          fn = flow_function state;
          ps = flow_params state;
          uid = user_id state
      in if fn = ''add_book_to_cart'' \<or> fn = ''remove_book_from_cart'' then
           (case (if truthy_int (p_book_id ps) then
                    (case execute ev Load_Book
                            (filter (\<lambda>b. Some (book_id b) = p_book_id ps) (books db)) of
                       Raised m \<Rightarrow> Raised m
                     | Returned rows \<Rightarrow> scalar_one_or_none rows)
                  else Returned None) of
              Raised m \<Rightarrow> Raised m
            | Returned book \<Rightarrow>
                (case active_cart ev db uid of
                   Raised m \<Rightarrow> Raised m
                 | Returned cart \<Rightarrow>
                     Returned (state\<lparr>state_trace := trace,
                       flow_ctx := empty_ctx
                         \<lparr>c_book := map_option (\<lambda>b. \<lparr>bk_id = book_id b, bk_title = book_title b,
                                      bk_price = book_price b, bk_stock = book_stock b\<rparr>) book,
                          c_cart_id := map_option cart_id cart\<rparr>\<rparr>)))
         else if fn = ''checkout_order'' then
           (case active_cart ev db uid of
              Raised m \<Rightarrow> Raised m
            | Returned None \<Rightarrow> Returned (state\<lparr>state_trace := trace, flow_ctx := empty_ctx\<rparr>)
            | Returned (Some cart) \<Rightarrow>
                (case execute ev Load_Cart_Items
                        (filter (\<lambda>i. item_cart_id i = cart_id cart) (cart_items db)) of
                   Raised m \<Rightarrow> Raised m
                 | Returned items \<Rightarrow>
                     (case load_cart_items ev db items of
                        Raised m \<Rightarrow> Raised m
                      | Returned its \<Rightarrow>
                          Returned (state\<lparr>state_trace := trace,
                            flow_ctx := empty_ctx
                              \<lparr>c_cart_id := Some (cart_id cart), c_cart_items := its\<rparr>\<rparr>))))
         else if fn = ''process_payment'' \<or> fn = ''confirm_payment'' \<or> fn = ''cancel_order''
                 \<or> fn = ''get_order_status'' then
           (case target_order ev db uid (p_order_id ps) of
              Raised m \<Rightarrow> Raised m
            | Returned order \<Rightarrow>
                Returned (state\<lparr>state_trace := trace,
                  flow_ctx := empty_ctx
                    \<lparr>c_order := map_option (\<lambda>r. \<lparr>oc_id = order_id r, oc_status = order_status r,
                                   oc_total = order_total r\<rparr>) order\<rparr>\<rparr>))
         else Returned (state\<lparr>state_trace := trace, flow_ctx := empty_ctx\<rparr>))"

subsection \<open>The actions of APPLY\_ACTION\<close>

text \<open>
  Each action takes the session and returns what it returns or raises, with the session
  as it leaves it.  \<open>session.add\<close> appends the row to the working state with the next key
  of its table; an assignment to an attribute of a loaded row rewrites the rows with that
  key; \<open>session.delete\<close> removes them.  A violated schema constraint (the unique index on
  \<open>payments.order_id\<close>, a foreign key) is an exception of the call that flushes, which
  the environment decides.
\<close>

definition get_quantity :: "params \<Rightarrow> int" where
  "get_quantity ps = (case p_quantity ps of None \<Rightarrow> 1 | Some n \<Rightarrow> n)"

text \<open>\<open>str(KeyError("book_id"))\<close>, raised by \<open>params["book_id"]\<close>.\<close>

definition key_error_book_id :: string where
  "key_error_book_id = squote @ ''book_id'' @ squote"

definition new_cart :: "env \<Rightarrow> session \<Rightarrow> int \<Rightarrow> int outcome \<times> session" where
  "new_cart ev s uid =
     (let db = working s;
          cid = next_id (map cart_id (carts db));
          s' = s\<lparr>working := db\<lparr>carts := carts db @
                 [\<lparr>cart_id = cid, cart_user_id = uid, cart_status = ''active''\<rparr>]\<rparr>\<rparr>
      in case fault ev Add_Flush of Some m \<Rightarrow> (Raised m, s') | None \<Rightarrow> (Returned cid, s'))"

text \<open>\<open>cart_id = ctx.get("cart_id")\<close>, and a new cart \<open>if not cart_id\<close>.\<close>

definition cart_for :: "env \<Rightarrow> session \<Rightarrow> int \<Rightarrow> ctx \<Rightarrow> int outcome \<times> session" where
  "cart_for ev s uid cx =
     (case c_cart_id cx of
        None \<Rightarrow> new_cart ev s uid
      | Some cid \<Rightarrow> if cid \<noteq> 0 then (Returned cid, s) else new_cart ev s uid)"

definition action_add_to_cart ::
  "env \<Rightarrow> session \<Rightarrow> int \<Rightarrow> params \<Rightarrow> ctx \<Rightarrow> action_result outcome \<times> session"
where
  "action_add_to_cart ev s uid ps cx =
     (case c_book cx of
        None \<Rightarrow> (Returned (failure ''Libro no encontrado''), s)
      | Some book \<Rightarrow>
          if bk_stock book < get_quantity ps then (Returned (failure ''Stock insuficiente''), s)
          else
            (case cart_for ev s uid cx of
               (Raised m, s1) \<Rightarrow> (Raised m, s1)
             | (Returned cid, s1) \<Rightarrow>
                 (case p_book_id ps of
                    None \<Rightarrow> (Raised key_error_book_id, s1)
                  | Some bid \<Rightarrow>
                      (case execute ev Add_Lookup
                              (filter (\<lambda>i. item_cart_id i = cid \<and> item_book_id i = bid)
                                 (cart_items (working s1))) of
                         Raised m \<Rightarrow> (Raised m, s1)
                       | Returned rows \<Rightarrow>
                           (case scalar_one_or_none rows of
                              Raised m \<Rightarrow> (Raised m, s1)
                            | Returned existing \<Rightarrow>
                                (let db = working s1;
                                     items' =
                                       (case existing of
                                          Some e \<Rightarrow>
                                            map (\<lambda>i. if item_id i = item_id e
                                                      then i\<lparr>item_quantity :=
                                                             item_quantity i + get_quantity ps\<rparr>
                                                      else i) (cart_items db)
                                        | None \<Rightarrow>
                                            cart_items db @
                                            [\<lparr>item_id = next_id (map item_id (cart_items db)),
                                              item_cart_id = cid, item_book_id = bid,
                                              item_quantity = get_quantity ps\<rparr>])
                                 in (Returned (empty_result\<lparr>r_success := Some True,
                                        r_book := Some (bk_title book),
                                        r_quantity := Some (get_quantity ps),
                                        r_cart_id := Some cid\<rparr>),
                                     s1\<lparr>working := db\<lparr>cart_items := items'\<rparr>\<rparr>)))))))"

definition action_remove_from_cart ::
  "env \<Rightarrow> session \<Rightarrow> params \<Rightarrow> ctx \<Rightarrow> action_result outcome \<times> session"
where
  "action_remove_from_cart ev s ps cx =
     (if \<not> truthy_int (c_cart_id cx) then
        (Returned (failure ''No tienes un carrito activo''), s)
      else
        (case p_book_id ps of
           None \<Rightarrow> (Raised key_error_book_id, s)
         | Some bid \<Rightarrow>
             (case execute ev Remove_Lookup
                     (filter (\<lambda>i. Some (item_cart_id i) = c_cart_id cx \<and> item_book_id i = bid)
                        (cart_items (working s))) of
                Raised m \<Rightarrow> (Raised m, s)
              | Returned rows \<Rightarrow>
                  (case scalar_one_or_none rows of
                     Raised m \<Rightarrow> (Raised m, s)
                   | Returned None \<Rightarrow>
                       (Returned (failure (''El libro no est'' @ a_acute @ '' en tu carrito'')), s)
                   | Returned (Some item) \<Rightarrow>
                       (case fault ev Remove_Delete of
                          Some m \<Rightarrow> (Raised m, s)
                        | None \<Rightarrow>
                            (let db = working s
                             in (Returned (empty_result\<lparr>r_success := Some True,
                                    r_message := Some ''Libro eliminado del carrito''\<rparr>),
                                 s\<lparr>working := db\<lparr>cart_items :=
                                      filter (\<lambda>i. item_id i \<noteq> item_id item) (cart_items db)\<rparr>\<rparr>)))))))"

text \<open>The loop of \<open>_action_checkout\<close> that adds one \<open>OrderItem\<close> per cart line.\<close>

fun add_order_items :: "int \<Rightarrow> item_ctx list \<Rightarrow> OrderItem list \<Rightarrow> OrderItem list" where
  "add_order_items oid [] rows = rows"
| "add_order_items oid (item # items) rows =
     add_order_items oid items
       (rows @ [\<lparr>oi_id = next_id (map oi_id rows), oi_order_id = oid,
                 oi_book_id = it_book_id item, oi_quantity = it_quantity item,
                 oi_unit_price = it_price item\<rparr>])"

definition action_checkout ::
  "env \<Rightarrow> session \<Rightarrow> int \<Rightarrow> ctx \<Rightarrow> action_result outcome \<times> session"
where
  "action_checkout ev s uid cx =
     (if \<not> truthy_int (c_cart_id cx) \<or> c_cart_items cx = [] then
        (Returned (failure (''Tu carrito est'' @ a_acute @ '' vac'' @ i_acute @ ''o'')), s)
      else
        (let total = sum_list (map (\<lambda>item. it_price item * of_int (it_quantity item))
                                 (c_cart_items cx));
             db = working s;
             oid = next_id (map order_id (orders db));
             s1 = s\<lparr>working := db\<lparr>orders := orders db @
                    [\<lparr>order_id = oid, order_user_id = uid, order_status = ''created'',
                      order_total = total, order_created_at = now ev\<rparr>]\<rparr>\<rparr>
         in case fault ev Checkout_Flush of
              Some m \<Rightarrow> (Raised m, s1)
            | None \<Rightarrow>
                (let db1 = working s1;
                     s2 = s1\<lparr>working := db1\<lparr>order_items :=
                            add_order_items oid (c_cart_items cx) (order_items db1)\<rparr>\<rparr>
                 in case execute ev Checkout_Cart
                           (filter (\<lambda>c. Some (cart_id c) = c_cart_id cx) (carts (working s2))) of
                      Raised m \<Rightarrow> (Raised m, s2)
                    | Returned rows \<Rightarrow>
                        (case scalar_one rows of
                           Raised m \<Rightarrow> (Raised m, s2)
                         | Returned cart \<Rightarrow>
                             (let db2 = working s2
                              in (Returned (empty_result\<lparr>r_success := Some True,
                                     r_order_id := Some oid, r_total := Some total,
                                     r_items_count := Some (length (c_cart_items cx))\<rparr>),
                                  s2\<lparr>working := db2\<lparr>carts :=
                                       map (\<lambda>c. if cart_id c = cart_id cart
                                                 then c\<lparr>cart_status := ''checked_out''\<rparr>
                                                 else c) (carts db2)\<rparr>\<rparr>))))))"

text \<open>The three refusals shared by \<open>_build_payment_confirmation\<close> and
  \<open>_action_process_payment\<close>; \<open>None\<close> when the order can be paid.\<close>

definition no_pending_order_msg :: string where
  "no_pending_order_msg =
     ''No se encontr'' @ o_acute @
     '' una orden pendiente de pago. Primero haz checkout de tu carrito.''"

definition payment_refusal :: "order_ctx \<Rightarrow> action_result option" where
  "payment_refusal order =
     (if oc_status order = ''paid'' then
        Some (failure (''La orden **#'' @ str_int (oc_id order) @
                ''** ya fue pagada anteriormente.''))
      else if oc_status order = ''cancelled'' then
        Some (failure (''La orden **#'' @ str_int (oc_id order) @
                ''** fue cancelada y no se puede pagar.''))
      else if oc_status order \<noteq> ''created'' then
        Some (failure (''La orden **#'' @ str_int (oc_id order) @ ''** est'' @ a_acute @
                '' en estado '' @ squote @ oc_status order @ squote @
                '' y no se puede pagar.''))
      else None)"

definition build_payment_confirmation :: "ctx \<Rightarrow> action_result" where
  "build_payment_confirmation cx =
     (case c_order cx of
        None \<Rightarrow> failure no_pending_order_msg
      | Some order \<Rightarrow>
          (case payment_refusal order of
             Some refusal \<Rightarrow> refusal
           | None \<Rightarrow>
               empty_result\<lparr>r_needs_confirmation := Some True, r_order_id := Some (oc_id order),
                 r_amount := Some (oc_total order)\<rparr>))"

definition action_process_payment ::
  "env \<Rightarrow> session \<Rightarrow> ctx \<Rightarrow> action_result outcome \<times> session"
where
  "action_process_payment ev s cx =
     (case c_order cx of
        None \<Rightarrow> (Returned (failure no_pending_order_msg), s)
      | Some order \<Rightarrow>
          (case payment_refusal order of
             Some refusal \<Rightarrow> (Returned refusal, s)
           | None \<Rightarrow>
               (let approved = (random_draw ev < 0.85);
                    status = (if approved then ''approved'' else ''rejected'');
                    db = working s;
                    s1 = s\<lparr>working := db\<lparr>payments := payments db @
                           [\<lparr>payment_id = next_id (map payment_id (payments db)),
                             payment_order_id = oc_id order, payment_amount = oc_total order,
                             payment_status = status\<rparr>]\<rparr>\<rparr>
                in case execute ev Payment_Order
                          (filter (\<lambda>r. order_id r = oc_id order) (orders (working s1))) of
                     Raised m \<Rightarrow> (Raised m, s1)
                   | Returned rows \<Rightarrow>
                       (case scalar_one rows of
                          Raised m \<Rightarrow> (Raised m, s1)
                        | Returned db_order \<Rightarrow>
                            (let db1 = working s1;
                                 result = empty_result\<lparr>r_success := Some approved,
                                   r_payment_status := Some status,
                                   r_order_id := Some (oc_id order),
                                   r_amount := Some (oc_total order)\<rparr>
                             in (Returned
                                   (if \<not> approved then
                                      result\<lparr>r_message := Some (''El pago para la orden **#'' @
                                        str_int (oc_id order) @
                                        ''** fue rechazado. Intenta de nuevo.'')\<rparr>
                                    else result),
                                 s1\<lparr>working := db1\<lparr>orders :=
                                      map (\<lambda>r. if order_id r = order_id db_order
                                                then r\<lparr>order_status :=
                                                       (if approved then ''paid'' else ''created'')\<rparr>
                                                else r) (orders db1)\<rparr>\<rparr>))))))"

definition action_cancel_order ::
  "env \<Rightarrow> session \<Rightarrow> ctx \<Rightarrow> action_result outcome \<times> session"
where
  "action_cancel_order ev s cx =
     (case c_order cx of
        None \<Rightarrow> (Returned (failure ''Orden no encontrada''), s)
      | Some order \<Rightarrow>
          if oc_status order = ''paid'' then
            (Returned (failure (''No se puede cancelar la orden **#'' @ str_int (oc_id order) @
                        ''** porque ya fue pagada.'')), s)
          else if oc_status order = ''cancelled'' then
            (Returned (failure (''La orden **#'' @ str_int (oc_id order) @ ''** ya est'' @
                        a_acute @ '' cancelada.'')), s)
          else
            (case execute ev Cancel_Order
                    (filter (\<lambda>r. order_id r = oc_id order) (orders (working s))) of
               Raised m \<Rightarrow> (Raised m, s)
             | Returned rows \<Rightarrow>
                 (case scalar_one rows of
                    Raised m \<Rightarrow> (Raised m, s)
                  | Returned db_order \<Rightarrow>
                      (let db = working s
                       in (Returned (empty_result\<lparr>r_success := Some True,
                              r_order_id := Some (oc_id order)\<rparr>),
                           s\<lparr>working := db\<lparr>orders :=
                                map (\<lambda>r. if order_id r = order_id db_order
                                          then r\<lparr>order_status := ''cancelled''\<rparr>
                                          else r) (orders db)\<rparr>\<rparr>)))))"

subsection \<open>APPLY\_ACTION and PERSIST\<close>

definition dispatch_action :: "env \<Rightarrow> session \<Rightarrow> FlowState \<Rightarrow> action_result outcome \<times> session" where
  "dispatch_action ev s state =
     (let fn = flow_function state; ps = flow_params state; cx = flow_ctx state;
          uid = user_id state
      in if fn = ''add_book_to_cart'' then action_add_to_cart ev s uid ps cx
         else if fn = ''remove_book_from_cart'' then action_remove_from_cart ev s ps cx
         else if fn = ''checkout_order'' then action_checkout ev s uid cx
         else if fn = ''process_payment'' then (Returned (build_payment_confirmation cx), s)
         else if fn = ''confirm_payment'' then action_process_payment ev s cx
         else if fn = ''cancel_order'' then action_cancel_order ev s cx
         else if fn = ''get_order_status'' then
           (Returned (empty_result\<lparr>r_order := c_order cx\<rparr>), s)
         else (Returned empty_result, s))"

text \<open>\<open>apply_action\<close>: the \<open>try\<close> around the dispatch; an exception becomes the flow's
  \<open>error\<close>, which is \<open>str(e)\<close>.\<close>

definition apply_action :: "env \<Rightarrow> session \<Rightarrow> FlowState \<Rightarrow> FlowState \<times> session" where
  "apply_action ev s state =
     (let trace = state_trace state @ [''APPLY_ACTION'']
      in case dispatch_action ev s state of
           (Returned result, s') \<Rightarrow>
             (state\<lparr>state_trace := trace, action_result := result, error := None\<rparr>, s')
         | (Raised m, s') \<Rightarrow>
             (state\<lparr>state_trace := trace, action_result := empty_result, error := Some m\<rparr>, s'))"

text \<open>\<open>persist_state\<close>: \<open>commit\<close>; when it raises, \<open>rollback\<close>, whose own exception is not
  caught.\<close>

definition persist_state :: "env \<Rightarrow> session \<Rightarrow> FlowState \<Rightarrow> FlowState outcome \<times> session" where
  "persist_state ev s state =
     (let trace = state_trace state @ [''PERSIST'']
      in case fault ev Persist_Commit of
           None \<Rightarrow> (Returned (state\<lparr>state_trace := trace\<rparr>), s\<lparr>committed := working s\<rparr>)
         | Some m \<Rightarrow>
             (case fault ev Persist_Rollback of
                None \<Rightarrow> (Returned (state\<lparr>state_trace := trace\<rparr>), s\<lparr>working := committed s\<rparr>)
              | Some m' \<Rightarrow> (Raised m', s)))"

subsection \<open>BUILD\_RESPONSE (with the templates of app/ai/llm.py)\<close>

definition get_message :: "action_result \<Rightarrow> string \<Rightarrow> string" where
  "get_message result dflt = (case r_message result of Some m \<Rightarrow> m | None \<Rightarrow> dflt)"

text \<open>An optional integer inside an f-string: \<open>None\<close> prints as \<open>None\<close>.\<close>

definition str_opt_int :: "int option \<Rightarrow> string" where
  "str_opt_int v = (case v of None \<Rightarrow> ''None'' | Some i \<Rightarrow> str_int i)"

definition get_real :: "real option \<Rightarrow> real" where
  "get_real v = (case v of None \<Rightarrow> 0 | Some x \<Rightarrow> x)"

definition FALLBACK_RESPONSE :: string where
  "FALLBACK_RESPONSE =
     ''Lo siento, hubo un problema al procesar tu solicitud. '' @ inv_question @
     ''Podr'' @ i_acute @ ''as intentar de nuevo?''"

text \<open>
  \<open>_build_fallback_response\<close>.  The keys that no action of graph.py sets (\<open>books\<close>,
  \<open>recommendations\<close>, \<open>error\<close>, \<open>title\<close>, \<open>author\<close>, \<open>genre\<close>, \<open>price\<close>, \<open>stock\<close>,
  \<open>description\<close>, \<open>status\<close>) are absent from every \<open>action_result\<close> of the engine, so the
  branches that read them take their defaults.
\<close>

definition build_fallback_response :: "string \<Rightarrow> action_result \<Rightarrow> string" where
  "build_fallback_response action result =
     (if action = ''search_books_for_sale'' then ''No encontre libros con esos criterios.''
      else if action = ''recommend_books_for_purchase'' then
        ''No tengo recomendaciones por ahora.''
      else if action = ''get_book_product_details'' then
        ''?'' @ newline @ ''Autor: ?'' @ newline @ ''Genero: ?'' @ newline @
        ''Precio: $'' @ fmt_2f 0 @ newline @ ''Stock: 0 unidades'' @ newline
      else if action = ''check_book_stock'' then ''El libro esta agotado.''
      else if action = ''add_book_to_cart'' then
        (if r_success result \<noteq> Some True then
           get_message result ''No se pudo agregar al carrito.''
         else (case r_book result of Some b \<Rightarrow> b | None \<Rightarrow> ''Libro'') @ '' (x'' @
              str_int (case r_quantity result of Some q \<Rightarrow> q | None \<Rightarrow> 1) @
              '') agregado al carrito.'')
      else if action = ''remove_book_from_cart'' then
        (if r_success result \<noteq> Some True then
           get_message result ''No se pudo eliminar del carrito.''
         else ''Libro eliminado del carrito.'')
      else if action = ''checkout_order'' then
        (if r_success result \<noteq> Some True then get_message result ''No se pudo crear la orden.''
         else ''Orden #'' @ str_opt_int (r_order_id result) @ '' creada. Total: $'' @
              fmt_2f (get_real (r_total result)) @ ''. '' @
              str_nat (case r_items_count result of Some n \<Rightarrow> n | None \<Rightarrow> 0) @ '' item(s).'')
      else if action = ''process_payment'' then
        (if r_success result \<noteq> Some True then
           get_message result ''El pago fue rechazado. Intenta de nuevo.''
         else ''Pago aprobado para la orden #'' @ str_opt_int (r_order_id result) @
              ''. Monto: $'' @ fmt_2f (get_real (r_amount result)) @ ''.'')
      else if action = ''cancel_order'' then
        (if r_success result \<noteq> Some True then
           get_message result ''No se pudo cancelar la orden.''
         else ''Orden #'' @ str_opt_int (r_order_id result) @ '' cancelada.'')
      else if action = ''get_order_status'' then
        ''Orden #'' @ str_opt_int (r_order_id result) @ '': estado ?, total $'' @
        fmt_2f (get_real (r_total result)) @ ''.''
      else FALLBACK_RESPONSE)"

definition TRANSACTIONAL_ACTIONS :: "string set" where
  "TRANSACTIONAL_ACTIONS =
     {''add_book_to_cart'', ''remove_book_from_cart'', ''checkout_order'', ''process_payment'',
      ''confirm_payment'', ''cancel_order'', ''view_cart''}"

definition payment_approved_text :: "action_result \<Rightarrow> string" where
  "payment_approved_text result =
     ''Pago **aprobado** para la orden **#'' @ str_opt_int (r_order_id result) @ ''**.'' @
     newline @ ''Monto: **$'' @ fmt_2f (get_real (r_amount result)) @ ''**.'' @ newline @
     newline @ inv_exclamation @ ''Gracias por tu compra!''"

definition build_transactional_response :: "string \<Rightarrow> action_result \<Rightarrow> string" where
  "build_transactional_response action result =
     (if action = ''add_book_to_cart'' then
        (if r_success result \<noteq> Some True then
           get_message result ''No se pudo agregar al carrito.''
         else ''**'' @ (case r_book result of Some b \<Rightarrow> b | None \<Rightarrow> ''Libro'') @ ''** (x'' @
              str_int (case r_quantity result of Some q \<Rightarrow> q | None \<Rightarrow> 1) @
              '') agregado al carrito.'' @ newline @ newline @
              inv_question @ ''Qu'' @ e_acute @ '' deseas hacer ahora?'' @ newline @
              ''- Escribe **'' @ dquote @ ''ver mi carrito'' @ dquote @
              ''** para ver el contenido'' @ newline @
              ''- Escribe **'' @ dquote @ ''hacer checkout'' @ dquote @
              ''** para crear tu orden'')
      else if action = ''remove_book_from_cart'' then
        (if r_success result \<noteq> Some True then
           get_message result ''No se pudo eliminar del carrito.''
         else ''Libro eliminado del carrito. Escribe **'' @ dquote @ ''ver mi carrito'' @
              dquote @ ''** para ver el contenido actualizado.'')
      else if action = ''checkout_order'' then
        (if r_success result \<noteq> Some True then get_message result ''No se pudo crear la orden.''
         else ''Orden **#'' @ str_opt_int (r_order_id result) @ ''** creada con '' @
              str_nat (case r_items_count result of Some n \<Rightarrow> n | None \<Rightarrow> 0) @
              '' item(s).'' @ newline @
              ''**Total: $'' @ fmt_2f (get_real (r_total result)) @ ''**'' @ newline @ newline @
              ''Para pagar, escribe **'' @ dquote @ ''pagar orden #'' @
              str_opt_int (r_order_id result) @ dquote @ ''**.'')
      else if action = ''process_payment'' then
        (if r_needs_confirmation result = Some True then
           ''Est'' @ a_acute @ ''s a punto de pagar **$'' @
           fmt_2f (get_real (r_amount result)) @ ''** para la orden **#'' @
           str_opt_int (r_order_id result) @ ''**.'' @ newline @ newline @
           ''Responde **'' @ dquote @ ''s'' @ i_acute @ '', confirmo el pago'' @ dquote @
           ''** para procesar el pago.''
         else if r_success result \<noteq> Some True then
           get_message result ''El pago fue rechazado. Intenta de nuevo.''
         else payment_approved_text result)
      else if action = ''confirm_payment'' then
        (if r_success result \<noteq> Some True then
           get_message result ''El pago fue rechazado. Intenta de nuevo.''
         else payment_approved_text result)
      else if action = ''cancel_order'' then
        (if r_success result \<noteq> Some True then
           get_message result ''No se pudo cancelar la orden.''
         else ''Orden **#'' @ str_opt_int (r_order_id result) @ ''** cancelada exitosamente.'')
      else if action = ''view_cart'' then
        ''Tu carrito est'' @ a_acute @ '' vac'' @ i_acute @ ''o. Escribe **'' @ dquote @
        ''buscar libros'' @ dquote @ ''** para explorar el cat'' @ a_acute @ ''logo.''
      else build_fallback_response action result)"

text \<open>\<open>build_response\<close>.  \<open>build_natural_response\<close> returns the provider's text, or the
  fallback template when the provider raises.\<close>

definition build_response :: "env \<Rightarrow> FlowState \<Rightarrow> FlowState" where
  "build_response ev state =
     (let trace = state_trace state @ [''BUILD_RESPONSE''];
          fn = flow_function state;
          result = action_result state;
          text =
            (if truthy_str (error state) then
               ''Hubo un error al procesar tu solicitud: '' @
               (case error state of Some m \<Rightarrow> m | None \<Rightarrow> [])
             else if fn \<in> TRANSACTIONAL_ACTIONS then build_transactional_response fn result
             else (case llm_text ev of
                     Returned t \<Rightarrow> t
                   | Raised m \<Rightarrow> build_fallback_response fn result))
      in state\<lparr>state_trace := trace, response := text\<rparr>)"

subsection \<open>The runner\<close>

definition field_name :: "string \<Rightarrow> string" where
  "field_name f =
     (if f = ''book_id'' then ''el ID del libro''
      else if f = ''order_id'' then ''el n'' @ u_acute @ ''mero de orden''
      else if f = ''quantity'' then ''la cantidad''
      else f)"

definition initial_state :: "string \<Rightarrow> int \<Rightarrow> string \<Rightarrow> params \<Rightarrow> FlowState" where
  "initial_state fn uid q ps =
     \<lparr>user_id = uid, flow_function = fn, query = q, flow_params = ps, flow_ctx = empty_ctx,
      action_result = empty_result, response = [], state_trace = [], needs_input = False,
      missing_fields = [], error = None\<rparr>"

definition run_flow ::
  "env \<Rightarrow> session \<Rightarrow> string \<Rightarrow> int \<Rightarrow> string \<Rightarrow> params \<Rightarrow> FlowState outcome \<times> session"
where
  "run_flow ev s fn uid q ps =
     (let state = validate_input (initial_state fn uid q ps)
      in if needs_input state then
           (Returned (state\<lparr>
              response := ''Para continuar, necesito que me indiques '' @
                          join_comma (map field_name (missing_fields state)) @ ''.'',
              state_trace := state_trace state @ [''ASK_INPUT'']\<rparr>), s)
         else
           (case load_context ev (working s) state of
              Raised m \<Rightarrow> (Raised m, s)
            | Returned state1 \<Rightarrow>
                (case apply_action ev s state1 of
                   (state2, s2) \<Rightarrow>
                     (if \<not> truthy_str (error state2) then
                        (case persist_state ev s2 state2 of
                           (Raised m, s3) \<Rightarrow> (Raised m, s3)
                         | (Returned state3, s3) \<Rightarrow> (Returned (build_response ev state3), s3))
                      else (Returned (build_response ev state2), s2)))))"

section \<open>Entity resolver (\<open>_resolve_book_smart\<close> of app/flow/orchestrator.py)\<close>

text \<open>
  Strings are UTF-8 byte strings: \<open>len\<close> counts the bytes that start a code point, and
  \<open>x in y\<close> is the search for a contiguous run.  \<open>str.lower\<close> is a parameter of the
  resolver, so that what is proved holds for Python's own; \<open>ascii_lower\<close> is its ASCII part.
\<close>

definition py_len :: "string \<Rightarrow> nat" where
  "py_len t = length (filter (\<lambda>c. \<not> (128 \<le> (of_char c :: nat) \<and> (of_char c :: nat) < 192)) t)"

fun is_substring :: "'a list \<Rightarrow> 'a list \<Rightarrow> bool" where
  "is_substring xs [] = (xs = [])"
| "is_substring xs (y # ys) = (take (length xs) (y # ys) = xs \<or> is_substring xs ys)"

definition ascii_lower :: "string \<Rightarrow> string" where
  "ascii_lower t =
     map (\<lambda>c. if 65 \<le> (of_char c :: nat) \<and> (of_char c :: nat) \<le> 90
               then char_of (of_char c + (32 :: nat)) else c) t"

text \<open>Python's \<open>max(xs, key=k)\<close> on \<open>x # xs\<close>: the first element whose key is greatest.\<close>

definition max_by :: "('a \<Rightarrow> nat) \<Rightarrow> 'a \<Rightarrow> 'a list \<Rightarrow> 'a" where
  "max_by k x xs = fold (\<lambda>y best. if k best < k y then y else best) xs x"

datatype resolution = Found Book | Ambiguous "Book list" | Not_Found

text \<open>\<open>sum(1 for kw in kws if kw.lower() in title_lower)\<close>.\<close>

definition keyword_matches :: "(string \<Rightarrow> string) \<Rightarrow> string list \<Rightarrow> Book \<Rightarrow> nat" where
  "keyword_matches lower kws book =
     length (filter (\<lambda>kw. is_substring (lower kw) (lower (book_title book))) kws)"

text \<open>Tier 1: the titles found in the query, longest titles first
  (\<open>sorted(all_books, key=lambda b: len(b.title), reverse=True)\<close> is stable).\<close>

definition exact_matches :: "(string \<Rightarrow> string) \<Rightarrow> Book list \<Rightarrow> string \<Rightarrow> Book list" where
  "exact_matches lower all_books q =
     filter (\<lambda>b. is_substring (lower (book_title b)) (lower q))
       (sort_key (\<lambda>b. - int (py_len (book_title b))) all_books)"

text \<open>Tiers 2 and 3: the books that match a keyword, with their counts, best first.\<close>

definition scored_books :: "(string \<Rightarrow> string) \<Rightarrow> Book list \<Rightarrow> string list \<Rightarrow> (Book \<times> nat) list" where
  "scored_books lower all_books kws =
     sort_key (\<lambda>p. - int (snd p))
       (filter (\<lambda>p. 0 < snd p) (map (\<lambda>b. (b, keyword_matches lower kws b)) all_books))"

text \<open>The resolver on the rows of \<open>books\<close>; \<open>kws\<close> are the key words, the value of
  \<open>_extract_keywords(query)\<close>, whose regular expressions are not modelled.\<close>

definition resolve_among :: "(string \<Rightarrow> string) \<Rightarrow> Book list \<Rightarrow> string \<Rightarrow> string list \<Rightarrow> resolution" where
  "resolve_among lower all_books q kws =
     (if all_books = [] then Not_Found
      else
        (case exact_matches lower all_books q of
           [b] \<Rightarrow> Found b
         | b # b' # bs \<Rightarrow> Found (max_by (\<lambda>x. py_len (book_title x)) b (b' # bs))
         | [] \<Rightarrow>
             (if kws = [] then Not_Found
              else
                (case scored_books lower all_books kws of
                   [] \<Rightarrow> Not_Found
                 | (best_book, best_count) # rest \<Rightarrow>
                     (if best_count = length kws then Found best_book
                      else
                        (case rest of
                           [] \<Rightarrow> Found best_book
                         | (second_book, second_count) # rest' \<Rightarrow>
                             (if second_count < best_count then Found best_book
                              else Ambiguous
                                     (map fst (filter (\<lambda>p. snd p = best_count)
                                        (take 5 ((best_book, best_count) # rest)))))))))))"

definition resolve_book_smart ::
  "(string \<Rightarrow> string) \<Rightarrow> env \<Rightarrow> database \<Rightarrow> string \<Rightarrow> string list \<Rightarrow> resolution outcome"
where
  "resolve_book_smart lower ev db q kws =
     (case execute ev Resolve_Books (books db) of
        Raised m \<Rightarrow> Raised m
      | Returned all_books \<Rightarrow> Returned (resolve_among lower all_books q kws))"

section \<open>Orchestrator (app/flow/orchestrator.py)\<close>

definition LANGGRAPH_FUNCTIONS :: "string set" where
  "LANGGRAPH_FUNCTIONS =
     {''add_book_to_cart'', ''remove_book_from_cart'', ''checkout_order'', ''process_payment'',
      ''cancel_order''}"

definition DIRECT_FUNCTIONS :: "string set" where
  "DIRECT_FUNCTIONS =
     {''search_books_for_sale'', ''recommend_books_for_purchase'', ''get_book_product_details'',
      ''check_book_stock'', ''get_order_status''}"

record OrchestratorResult =
  res_response :: string
  res_function_name :: string
  res_method :: string
  res_similarity :: real
  res_state_trace :: "string list option"
  res_books :: "Book list option"
  res_top_candidates :: "(string \<times> real) list option"

text \<open>
  What the parts of the orchestrator that are not modelled make of one query: the
  regular expressions (\<open>_check_help_query\<close>, \<open>_is_domain_relevant\<close>, \<open>_extract_keywords\<close>,
  \<open>_extract_number\<close> in its two contexts), the intent resolver, and the read-only
  executors with the wording of their result (\<open>_execute_direct\<close>, which only issues
  \<open>select\<close>s, then \<open>_build_response_safe\<close> and \<open>_extract_books_from_result\<close>).
\<close>

record reading =
  help_response :: "string option"
  sem_match :: "SemanticMatch outcome"
  domain_relevant :: bool
  query_kws :: "string list"
  quantity_found :: "int option"
  order_id_found :: "int option"
  direct_response :: "string outcome"
  direct_books :: "Book list option"

text \<open>\<open>_log_execution\<close>: one \<open>ExecutionLog\<close> added and committed; a failing commit is
  rolled back, and a failing rollback is passed over.\<close>

definition log_execution ::
  "env \<Rightarrow> session \<Rightarrow> int \<Rightarrow> int option \<Rightarrow> string \<Rightarrow> string \<Rightarrow> real \<Rightarrow> string \<Rightarrow>
     string list option \<Rightarrow> string \<Rightarrow> (string \<times> real) list option \<Rightarrow> session"
where
  "log_execution ev s uid sid q fname sim meth trace result candidates =
     (let db = working s;
          s1 = s\<lparr>working := db\<lparr>execution_logs := execution_logs db @
                 [\<lparr>log_user_id = uid, log_session_id = sid, log_query = q,
                   log_matched_function = fname, log_similarity_score = sim,
                   log_method = meth, log_top_candidates = candidates,
                   log_state_trace = trace, log_result = result\<rparr>]\<rparr>\<rparr>
      in case fault ev Log_Commit of
           None \<Rightarrow> s1\<lparr>committed := working s1\<rparr>
         | Some m \<Rightarrow>
             (case fault ev Log_Rollback of
                None \<Rightarrow> s1\<lparr>working := committed s1\<rparr>
              | Some m' \<Rightarrow> s1))"

text \<open>The resolution of \<open>_extract_params\<close> and of the cart branch of \<open>handle_query\<close>:
  \<open>None\<close> when the resolver is not called.\<close>

definition resolve_if ::
  "bool \<Rightarrow> (string \<Rightarrow> string) \<Rightarrow> env \<Rightarrow> database \<Rightarrow> string \<Rightarrow> string list \<Rightarrow>
     resolution option outcome"
where
  "resolve_if wanted lower ev db q kws =
     (if wanted then
        (case resolve_book_smart lower ev db q kws of
           Raised m \<Rightarrow> Raised m
         | Returned r \<Rightarrow> Returned (Some r))
      else Returned None)"

definition extract_params ::
  "(string \<Rightarrow> string) \<Rightarrow> env \<Rightarrow> database \<Rightarrow> string \<Rightarrow> string \<Rightarrow> reading \<Rightarrow> params outcome"
where
  "extract_params lower ev db q fname rd =
     (case resolve_if (fname \<in> {''add_book_to_cart'', ''remove_book_from_cart'',
                                    ''get_book_product_details'', ''check_book_stock''})
             lower ev db q (query_kws rd) of
        Raised m \<Rightarrow> Raised m
      | Returned r \<Rightarrow>
          Returned
            \<lparr>p_book_id = (case r of Some (Found b) \<Rightarrow> Some (book_id b) | _ \<Rightarrow> None),
             p_quantity =
               (if fname = ''add_book_to_cart'' \<and> truthy_int (quantity_found rd)
                then quantity_found rd else None),
             p_order_id =
               (if fname \<in> {''process_payment'', ''cancel_order'', ''get_order_status''}
                   \<and> truthy_int (order_id_found rd)
                then order_id_found rd else None)\<rparr>)"

definition DOMAIN_GUARDRAIL :: string where
  "DOMAIN_GUARDRAIL =
     ''No puedo ayudar con eso. Puedo ayudarte con compras, '' @
     ''recomendaciones y pedidos de libros.''"

definition clarification_response :: string where
  "clarification_response =
     ''No estoy seguro de entender tu solicitud. Puedo ayudarte con:'' @ newline @ newline @
     ''- Buscar libros por g'' @ e_acute @ ''nero, autor o tema'' @ newline @
     ''- Recomendaciones personalizadas'' @ newline @
     ''- Ver detalles de un libro'' @ newline @
     ''- Verificar stock/disponibilidad'' @ newline @
     ''- Agregar o quitar libros del carrito'' @ newline @
     ''- Hacer checkout y pagar'' @ newline @
     ''- Consultar estado de pedidos'' @ newline @ newline @
     inv_question @ ''Qu'' @ e_acute @ '' te gustar'' @ i_acute @ ''a hacer?''"

fun join_lines :: "string list \<Rightarrow> string" where
  "join_lines [] = []"
| "join_lines [x] = x"
| "join_lines (x # y # ys) = x @ newline @ join_lines (y # ys)"

definition em_dash :: string where "em_dash = [CHR 0xE2, CHR 0x80, CHR 0x94]"

definition ambiguous_response :: "Book list \<Rightarrow> string" where
  "ambiguous_response books_data =
     ''Encontr'' @ e_acute @ '' varios libros que coinciden. '' @ inv_question @
     ''Te refieres a alguno de estos?'' @ newline @ newline @
     join_lines (map (\<lambda>(i, b). ''  '' @ str_nat (i + 1) @ '') '' @ book_title b @ '' '' @
                         em_dash @ '' '' @ book_author b) (enumerate 0 books_data)) @
     newline @ newline @ ''Dime el n'' @ u_acute @ ''mero o nombre del libro.''"

definition not_found_response :: string where
  "not_found_response =
     ''No encontr'' @ e_acute @ '' ning'' @ u_acute @ ''n libro con ese nombre. '' @
     inv_question @ ''Podr'' @ i_acute @ ''as darme m'' @ a_acute @
     ''s detalles o el nombre exacto?''"

text \<open>The branch \<open>if fn_name in LANGGRAPH_FUNCTIONS\<close>.\<close>

definition handle_flow ::
  "(string \<Rightarrow> string) \<Rightarrow> env \<Rightarrow> session \<Rightarrow> string \<Rightarrow> int \<Rightarrow> int option \<Rightarrow> reading \<Rightarrow>
     SemanticMatch \<Rightarrow> OrchestratorResult outcome \<times> session"
where
  "handle_flow lower ev s q uid sid rd m =
     (let fname = function_name m;
          early = (\<lambda>text books_data.
            (Returned \<lparr>res_response = text, res_function_name = fname,
               res_method = match_method m, res_similarity = similarity m,
               res_state_trace = None, res_books = books_data,
               res_top_candidates = Some (top_candidates m)\<rparr>,
             log_execution ev s uid sid q fname (similarity m) (match_method m) None text
               (Some (top_candidates m))))
      in case extract_params lower ev (working s) q fname rd of
           Raised e \<Rightarrow> (Raised e, s)
         | Returned extracted \<Rightarrow>
             (case resolve_if ((fname = ''add_book_to_cart'' \<or>
                                fname = ''remove_book_from_cart'') \<and> p_book_id extracted = None)
                     lower ev (working s) q (query_kws rd) of
                Raised e \<Rightarrow> (Raised e, s)
              | Returned (Some (Ambiguous books_data)) \<Rightarrow>
                  early (ambiguous_response books_data) (Some books_data)
              | Returned (Some Not_Found) \<Rightarrow> early not_found_response None
              | Returned r \<Rightarrow>
                  (case run_flow ev s fname uid q
                          (case r of Some (Found b) \<Rightarrow> extracted\<lparr>p_book_id := Some (book_id b)\<rparr>
                                   | _ \<Rightarrow> extracted) of
                     (Raised e, s1) \<Rightarrow> (Raised e, s1)
                   | (Returned flow_state, s1) \<Rightarrow>
                       (Returned \<lparr>res_response = response flow_state,
                          res_function_name = fname, res_method = match_method m,
                          res_similarity = similarity m,
                          res_state_trace = Some (state_trace flow_state), res_books = None,
                          res_top_candidates = Some (top_candidates m)\<rparr>,
                        log_execution ev s1 uid sid q fname (similarity m) (match_method m)
                          (Some (state_trace flow_state)) (response flow_state)
                          (Some (top_candidates m))))))"

definition handle_query ::
  "(string \<Rightarrow> string) \<Rightarrow> env \<Rightarrow> session \<Rightarrow> string \<Rightarrow> int \<Rightarrow> int option \<Rightarrow> reading \<Rightarrow>
     OrchestratorResult outcome \<times> session"
where
  "handle_query lower ev s q uid sid rd =
     (if truthy_str (help_response rd) then
        (let text = (case help_response rd of Some t \<Rightarrow> t | None \<Rightarrow> [])
         in (Returned \<lparr>res_response = text, res_function_name = [], res_method = ''help'',
               res_similarity = 1, res_state_trace = None, res_books = None,
               res_top_candidates = None\<rparr>,
             log_execution ev s uid sid q [] 1 ''help'' None text None))
      else
        (case sem_match rd of
           Raised e \<Rightarrow> (Raised e, s)
         | Returned m \<Rightarrow>
             (if match_method m = ''clarification'' then
                (if \<not> domain_relevant rd then
                   (Returned \<lparr>res_response = DOMAIN_GUARDRAIL, res_function_name = [],
                      res_method = ''guardrail'', res_similarity = similarity m,
                      res_state_trace = None, res_books = None,
                      res_top_candidates = Some (top_candidates m)\<rparr>,
                    log_execution ev s uid sid q [] 0 ''guardrail'' None DOMAIN_GUARDRAIL
                      (Some (top_candidates m)))
                 else
                   (Returned \<lparr>res_response = clarification_response, res_function_name = [],
                      res_method = ''clarification'', res_similarity = similarity m,
                      res_state_trace = None, res_books = None,
                      res_top_candidates = Some (top_candidates m)\<rparr>,
                    log_execution ev s uid sid q [] (similarity m) ''clarification'' None
                      clarification_response (Some (top_candidates m))))
              else if function_name m \<in> LANGGRAPH_FUNCTIONS then
                handle_flow lower ev s q uid sid rd m
              else if function_name m \<in> DIRECT_FUNCTIONS then
                (case direct_response rd of
                   Raised e \<Rightarrow> (Raised e, s)
                 | Returned text \<Rightarrow>
                     (Returned \<lparr>res_response = text, res_function_name = function_name m,
                        res_method = match_method m, res_similarity = similarity m,
                        res_state_trace = None, res_books = direct_books rd,
                        res_top_candidates = Some (top_candidates m)\<rparr>,
                      log_execution ev s uid sid q (function_name m) (similarity m)
                        (match_method m) None text (Some (top_candidates m))))
              else
                (Returned \<lparr>res_response = ''Error interno del orquestador.'',
                   res_function_name = function_name m, res_method = ''error'',
                   res_similarity = similarity m, res_state_trace = None, res_books = None,
                   res_top_candidates = None\<rparr>, s))))"

section \<open>Example data\<close>

text \<open>Two catalogue actions whose combined-embedding similarities to a query are 0.49 and
  0.50: the top score clears the combined threshold with a gap of 0.01.  And two whose
  best similarity, 0.28, lies between the floor 0.25 and the combined threshold.\<close>

definition close_functions :: "SemanticFunction list" where
  "close_functions =
     [\<lparr>fn_id = 1, fn_name = ''process_payment'', fn_description = ''Procesar el pago'',
       fn_combined_sim = Some 0.49\<rparr>,
      \<lparr>fn_id = 2, fn_name = ''confirm_payment'', fn_description = ''Confirmar el pago'',
       fn_combined_sim = Some 0.50\<rparr>]"

definition weak_functions :: "SemanticFunction list" where
  "weak_functions =
     [\<lparr>fn_id = 1, fn_name = ''process_payment'', fn_description = ''Procesar el pago'',
       fn_combined_sim = Some 0.28\<rparr>,
      \<lparr>fn_id = 2, fn_name = ''confirm_payment'', fn_description = ''Confirmar el pago'',
       fn_combined_sim = Some 0.10\<rparr>]"

text \<open>A store with three books, no cart, and two orders of user 1: order 7 awaits its
  payment, order 8 is paid.  A session opened on it, clean.\<close>

definition demo_db :: database where
  "demo_db =
     \<lparr>books =
        [\<lparr>book_id = 1, book_title = ''Dune'', book_author = ''Frank Herbert'',
          book_price = 12.5, book_stock = 25\<rparr>,
         \<lparr>book_id = 2, book_title = ''The Great Gatsby'', book_author = ''F. Scott Fitzgerald'',
          book_price = 10, book_stock = 3\<rparr>,
         \<lparr>book_id = 3, book_title = ''Great Expectations'', book_author = ''Charles Dickens'',
          book_price = 8, book_stock = 0\<rparr>],
      carts = [], cart_items = [],
      orders =
        [\<lparr>order_id = 7, order_user_id = 1, order_status = ''created'', order_total = 25,
          order_created_at = 500\<rparr>,
         \<lparr>order_id = 8, order_user_id = 1, order_status = ''paid'', order_total = 10,
          order_created_at = 400\<rparr>],
      order_items = [],
      payments =
        [\<lparr>payment_id = 1, payment_order_id = 8, payment_amount = 10,
          payment_status = ''approved''\<rparr>],
      execution_logs = []\<rparr>"

definition demo_session :: session where
  "demo_session = \<lparr>committed = demo_db, working = demo_db\<rparr>"

text \<open>An environment in which no call to the database raises and the generative provider
  is offline; \<open>r\<close> is the value of \<open>random.random()\<close>.\<close>

definition quiet :: "real \<Rightarrow> env" where
  "quiet r = \<lparr>fault = (\<lambda>st. None), random_draw = r, now = 1000,
              llm_text = Raised ''provider offline''\<rparr>"

text \<open>The same, except that the call at one site raises an exception whose \<open>str\<close> is \<open>m\<close>.\<close>

definition failing_at :: "site \<Rightarrow> string \<Rightarrow> env" where
  "failing_at st m = \<lparr>fault = (\<lambda>x. if x = st then Some m else None), random_draw = 1 / 2,
                      now = 1000, llm_text = Raised ''provider offline''\<rparr>"

section \<open>Vocabulary of the properties\<close>

text \<open>The required field of an action is missing: no resolved book id for the two cart
  actions, no order id for the cancellation.\<close>

definition missing_required :: "string \<Rightarrow> params \<Rightarrow> bool" where
  "missing_required fn ps \<longleftrightarrow>
     (fn = ''add_book_to_cart'' \<or> fn = ''remove_book_from_cart'') \<and> \<not> truthy_int (p_book_id ps)
     \<or> fn = ''cancel_order'' \<and> \<not> truthy_int (p_order_id ps)"

text \<open>
  What one run of action \<open>fn\<close> in environment \<open>ev\<close> may do to one order row: leave it as it
  is, or change its status only, from \<open>created\<close> to \<open>paid\<close> when the action is an approved
  \<open>confirm_payment\<close>, or from a status other than \<open>paid\<close> and \<open>cancelled\<close> to \<open>cancelled\<close> when
  the action is \<open>cancel_order\<close>.  And to the table: rewrite rows in this way and append
  orders in status \<open>created\<close>.
\<close>

definition status_step :: "string \<Rightarrow> env \<Rightarrow> Order \<Rightarrow> Order \<Rightarrow> bool" where
  "status_step fn ev a b \<longleftrightarrow>
     b = a\<lparr>order_status := order_status b\<rparr> \<and>
     (order_status b = order_status a
      \<or> order_status a = ''created'' \<and> order_status b = ''paid'' \<and> fn = ''confirm_payment''
          \<and> random_draw ev < 0.85
      \<or> order_status a \<noteq> ''paid'' \<and> order_status a \<noteq> ''cancelled''
          \<and> order_status b = ''cancelled'' \<and> fn = ''cancel_order'')"

definition orders_step :: "string \<Rightarrow> env \<Rightarrow> Order list \<Rightarrow> Order list \<Rightarrow> bool" where
  "orders_step fn ev old new \<longleftrightarrow>
     length old \<le> length new \<and>
     list_all2 (status_step fn ev) old (take (length old) new) \<and>
     list_all (\<lambda>r. order_status r = ''created'') (drop (length old) new)"

text \<open>A sequence of runs of the flow engine on one session, each with its own environment.\<close>

record request =
  rq_env :: env
  rq_function :: string
  rq_user :: int
  rq_query :: string
  rq_params :: params

fun run_requests :: "session \<Rightarrow> request list \<Rightarrow> session" where
  "run_requests s [] = s"
| "run_requests s (r # rs) =
     run_requests (snd (run_flow (rq_env r) s (rq_function r) (rq_user r) (rq_query r)
                          (rq_params r))) rs"

text \<open>User 1 buys two copies of book 1: add to cart, checkout, confirmation of the
  payment, each in a quiet environment whose draw approves the payment.\<close>

definition demo_purchase :: "request list" where
  "demo_purchase =
     [\<lparr>rq_env = quiet (1 / 2), rq_function = ''add_book_to_cart'', rq_user = 1,
       rq_query = ''compra 2 Dune'',
       rq_params = \<lparr>p_book_id = Some 1, p_quantity = Some 2, p_order_id = None\<rparr>\<rparr>,
      \<lparr>rq_env = quiet (1 / 2), rq_function = ''checkout_order'', rq_user = 1,
       rq_query = ''hacer checkout'',
       rq_params = \<lparr>p_book_id = None, p_quantity = None, p_order_id = None\<rparr>\<rparr>,
      \<lparr>rq_env = quiet (1 / 2), rq_function = ''confirm_payment'', rq_user = 1,
       rq_query = ''confirmo'',
       rq_params = \<lparr>p_book_id = None, p_quantity = None, p_order_id = None\<rparr>\<rparr>]"

section \<open>Properties\<close>

subsection \<open>Intent resolver\<close>

lemma rank_close_functions:
  "rank_functions [] close_functions = [(close_functions ! 1, 0.50), (close_functions ! 0, 0.49)]"
  by (simp add: rank_functions_def close_functions_def fn_score_def)

lemma rank_weak_functions:
  "rank_functions [] weak_functions = [(weak_functions ! 0, 0.28), (weak_functions ! 1, 0.10)]"
  by (simp add: rank_functions_def weak_functions_def fn_score_def)

text \<open>
  Claim C3.  In the embedding tier (no rule matched, the catalogue is loaded and ranked
  with \<open>best_fn\<close> on top), a top score that reaches the high-confidence threshold or the
  applicable base threshold makes \<open>select_function\<close> return the top-ranked action with
  method \<open>semantic\<close> (the embedding method) and no request to the generative provider.
  Nothing is assumed about the runner-up, and the result is the same for every value \<open>g\<close>
  of the configured confidence-gap threshold.
\<close>

theorem embedding_acceptance_ignores_gap:
  assumes "rank_functions (individual_rows emb_rows) functions = (best_fn, best_score) # rest"
    and "high_confidence_threshold cfg \<le> best_score
         \<or> base_threshold cfg (individual_rows emb_rows \<noteq> []) \<le> best_score"
  shows "select_function cfg None (Returned functions) emb_rows llm_reply =
           (Returned \<lparr>function_name = fn_name best_fn, similarity = best_score,
              match_method = ''semantic'',
              top_candidates = candidates_of ((best_fn, best_score) # rest)\<rparr>, 0)
         \<and> select_function (cfg\<lparr>confidence_gap_threshold := g\<rparr>) None (Returned functions)
               emb_rows llm_reply
             = select_function cfg None (Returned functions) emb_rows llm_reply"
  using assms
  by (auto simp: select_function_def embedding_tiers_def Let_def base_threshold_def)

text \<open>Witness: scores 0.50 and 0.49 under the default settings; the gap 0.01 is below the
  configured 0.05 and the top action is accepted.\<close>

theorem embedding_acceptance_ignores_gap_witness:
  "select_function settings None (Returned close_functions) (Returned []) (Raised ''offline'')
     = (Returned \<lparr>function_name = ''confirm_payment'', similarity = 0.50,
          match_method = ''semantic'',
          top_candidates = [(''confirm_payment'', 0.5), (''process_payment'', 0.49)]\<rparr>, 0)
   \<and> (0.50 :: real) - 0.49 < confidence_gap_threshold settings"
  using embedding_acceptance_ignores_gap
    [of "Returned []" close_functions "close_functions ! 1" "0.50"
        "[(close_functions ! 0, 0.49)]" settings "Raised ''offline''" 0]
  apply (simp add: rank_close_functions individual_rows_def base_threshold_def settings_def
      candidates_of_def round4_def)
  apply (simp add: close_functions_def)
  done

text \<open>
  Claim C9.  The generative provider is asked (the request count is not 0) only when the
  catalogue was loaded and the top embedding score is at least 0.25 and below the
  applicable base threshold.  When it is asked and it fails, or answers a name that is not
  one of the offered actions, \<open>select_function\<close> still returns (no exception reaches the
  caller), and what it returns has the empty action and the method \<open>clarification\<close>.
\<close>

theorem generative_fallback_guarded:
  "(snd (select_function cfg rule_match fn_rows emb_rows llm_reply) \<noteq> 0 \<longrightarrow>
      (\<exists>functions best_fn best_score rest.
          fn_rows = Returned functions \<and>
          rank_functions (individual_rows emb_rows) functions = (best_fn, best_score) # rest \<and>
          0.25 \<le> best_score \<and>
          best_score < base_threshold cfg (individual_rows emb_rows \<noteq> [])))
   \<and> (snd (select_function cfg rule_match (Returned functions) emb_rows llm_reply) \<noteq> 0 \<and>
        (llm_reply = Raised e \<or> llm_reply = Returned name \<and> name \<notin> fn_name ` set functions)
      \<longrightarrow>
      (\<exists>m. fst (select_function cfg rule_match (Returned functions) emb_rows llm_reply)
             = Returned m \<and>
           function_name m = [] \<and> match_method m = ''clarification''))"
  by (auto simp: select_function_def embedding_tiers_def Let_def classify_intent_def image_image
      split: option.splits list.splits outcome.splits if_splits)

lemma weak_functions_clarification:
  "select_function settings None (Returned weak_functions) (Returned []) (Raised ''timeout'') =
     (Returned \<lparr>function_name = [], similarity = 0.28, match_method = ''clarification'',
        top_candidates = [(''process_payment'', 0.28), (''confirm_payment'', 0.1)]\<rparr>, 1)"
  apply (simp add: select_function_def embedding_tiers_def rank_weak_functions
      individual_rows_def base_threshold_def settings_def candidates_of_def round4_def
      classify_intent_def)
  apply (simp add: weak_functions_def)
  done

text \<open>Witness: top score 0.28 under the default settings (combined threshold 0.30) and a
  provider that times out: one request sent, and a clarification returned.\<close>

theorem generative_fallback_guarded_witness:
  "snd (select_function settings None (Returned weak_functions) (Returned [])
          (Raised ''timeout'')) = 1
   \<and> fst (select_function settings None (Returned weak_functions) (Returned [])
          (Raised ''timeout''))
       = Returned \<lparr>function_name = [], similarity = 0.28, match_method = ''clarification'',
           top_candidates = [(''process_payment'', 0.28), (''confirm_payment'', 0.1)]\<rparr>
   \<and> (\<exists>best_fn best_score rest.
          rank_functions [] weak_functions = (best_fn, best_score) # rest \<and>
          0.25 \<le> best_score \<and> best_score < combined_similarity_threshold settings)"
  using generative_fallback_guarded
    [of settings None "Returned weak_functions" "Returned []" "Raised ''timeout''"
        weak_functions "''timeout''" "[]"]
  by (simp add: weak_functions_clarification individual_rows_def base_threshold_def)

subsection \<open>Flow engine: the steps one by one\<close>

lemma needs_input_iff:
  "needs_input (validate_input (initial_state fn uid q ps)) = missing_required fn ps"
  by (auto simp: validate_input_def initial_state_def missing_required_def Let_def)

lemma validate_input_fields:
  "state_trace (validate_input (initial_state fn uid q ps)) = [''VALIDATE_INPUT'']"
  "flow_function (validate_input (initial_state fn uid q ps)) = fn"
  "user_id (validate_input (initial_state fn uid q ps)) = uid"
  "error (validate_input (initial_state fn uid q ps)) = None"
  "action_result (validate_input (initial_state fn uid q ps)) = empty_result"
  by (simp_all add: validate_input_def initial_state_def Let_def)

lemma validate_input_missing:
  "missing_fields (validate_input (initial_state fn uid q ps)) =
     (if missing_required fn ps
      then (if fn = ''cancel_order'' then [''order_id''] else [''book_id'']) else [])"
  by (auto simp: validate_input_def initial_state_def missing_required_def Let_def)

lemma validate_input_params:
  "flow_params (validate_input (initial_state fn uid q ps)) =
     (if fn = ''add_book_to_cart'' \<and> \<not> truthy_int (p_quantity ps)
      then ps\<lparr>p_quantity := Some 1\<rparr> else ps)"
  by (simp add: validate_input_def initial_state_def Let_def)

lemma load_context_shape:
  assumes "load_context ev db st = Returned st'"
  shows "st' = st\<lparr>state_trace := state_trace st @ [''LOAD_CONTEXT''], flow_ctx := flow_ctx st'\<rparr>"
  using assms
  by (auto simp: load_context_def Let_def split: if_splits outcome.splits option.splits)

lemma load_context_fields:
  assumes "load_context ev db st = Returned st'"
  shows "state_trace st' = state_trace st @ [''LOAD_CONTEXT'']"
    and "flow_function st' = flow_function st" and "user_id st' = user_id st"
    and "flow_params st' = flow_params st" and "error st' = error st"
    and "action_result st' = action_result st"
proof -
  note shape = load_context_shape [OF assms]
  show "state_trace st' = state_trace st @ [''LOAD_CONTEXT'']" by (subst shape) simp
  show "flow_function st' = flow_function st" by (subst shape) simp
  show "user_id st' = user_id st" by (subst shape) simp
  show "flow_params st' = flow_params st" by (subst shape) simp
  show "error st' = error st" by (subst shape) simp
  show "action_result st' = action_result st" by (subst shape) simp
qed

lemma scalar_one_or_none_Some:
  "scalar_one_or_none rows = Returned (Some x) \<Longrightarrow> rows = [x]"
  by (cases rows rule: scalar_one_or_none.cases) auto

lemma scalar_one_Returned: "scalar_one rows = Returned x \<Longrightarrow> rows = [x]"
  by (cases rows rule: scalar_one.cases) auto

lemma execute_Returned: "execute ev st rows = Returned rows' \<Longrightarrow> rows' = rows"
  by (auto simp: execute_def split: option.splits)

lemma load_context_book:
  assumes "load_context ev db st = Returned st'" and "c_book (flow_ctx st') = Some bk"
  shows "\<exists>b \<in> set (books db). Some (book_id b) = p_book_id (flow_params st) \<and>
           bk_id bk = book_id b \<and> bk_title bk = book_title b \<and>
           bk_price bk = book_price b \<and> bk_stock bk = book_stock b"
proof -
  from assms obtain rows b where
    rows: "rows = filter (\<lambda>b. Some (book_id b) = p_book_id (flow_params st)) (books db)"
    and one: "scalar_one_or_none rows = Returned (Some b)"
    and bk: "bk = \<lparr>bk_id = book_id b, bk_title = book_title b, bk_price = book_price b,
                   bk_stock = book_stock b\<rparr>"
    by (auto simp: load_context_def Let_def empty_ctx_def
        split: if_splits outcome.splits option.splits dest!: execute_Returned)
  from one have "rows = [b]" by (rule scalar_one_or_none_Some)
  then have "b \<in> set rows" by simp
  then have "b \<in> set (books db)" and "Some (book_id b) = p_book_id (flow_params st)"
    unfolding rows by simp_all
  with bk show ?thesis by auto
qed

lemma target_order_in_db:
  assumes "target_order ev db uid oid = Returned (Some r)"
  shows "r \<in> set (orders db)"
proof -
  from assms obtain rows where one: "scalar_one_or_none rows = Returned (Some r)"
    and rows: "set rows \<subseteq> set (orders db)"
  proof (cases "truthy_int oid")
    case True
    with assms that show ?thesis
      by (auto simp: target_order_def split: outcome.splits dest!: execute_Returned)
  next
    case False
    have "set (take 1 (sort_key (\<lambda>r. - order_created_at r)
              (filter (\<lambda>r. order_user_id r = uid \<and> order_status r = ''created'') (orders db))))
          \<subseteq> set (orders db)"
      using set_take_subset by fastforce
    with False assms that show ?thesis
      by (auto simp: target_order_def split: outcome.splits dest!: execute_Returned)
  qed
  from one have "rows = [r]" by (rule scalar_one_or_none_Some)
  with rows show ?thesis by simp
qed

lemma load_context_order:
  assumes "load_context ev db st = Returned st'" and "c_order (flow_ctx st') = Some oc"
  shows "\<exists>r \<in> set (orders db). oc_id oc = order_id r \<and> oc_status oc = order_status r \<and>
           oc_total oc = order_total r"
proof -
  from assms obtain r where
    "target_order ev db (user_id st) (p_order_id (flow_params st)) = Returned (Some r)"
    and "oc = \<lparr>oc_id = order_id r, oc_status = order_status r, oc_total = order_total r\<rparr>"
    by (auto simp: load_context_def Let_def empty_ctx_def
        split: if_splits outcome.splits option.splits)
  then show ?thesis by (auto dest: target_order_in_db)
qed

subsection \<open>Flow engine: what the actions leave alone\<close>

lemma new_cart_frame:
  assumes "new_cart ev s uid = (out, s')"
  shows "committed s' = committed s" and "books (working s') = books (working s)"
    and "orders (working s') = orders (working s)"
    and "execution_logs (working s') = execution_logs (working s)"
  using assms by (auto simp: new_cart_def Let_def split: option.splits)

lemma cart_for_frame:
  assumes "cart_for ev s uid cx = (out, s')"
  shows "committed s' = committed s" and "books (working s') = books (working s)"
    and "orders (working s') = orders (working s)"
    and "execution_logs (working s') = execution_logs (working s)"
  using assms by (auto simp: cart_for_def split: option.splits if_splits dest: new_cart_frame)

lemma action_add_to_cart_frame:
  assumes "action_add_to_cart ev s uid ps cx = (out, s')"
  shows "committed s' = committed s" and "books (working s') = books (working s)"
    and "orders (working s') = orders (working s)"
    and "execution_logs (working s') = execution_logs (working s)"
  using assms
  by (auto simp: action_add_to_cart_def Let_def
      split: option.splits if_splits outcome.splits prod.splits dest: cart_for_frame)

lemma action_remove_from_cart_frame:
  assumes "action_remove_from_cart ev s ps cx = (out, s')"
  shows "committed s' = committed s" and "books (working s') = books (working s)"
    and "orders (working s') = orders (working s)"
    and "execution_logs (working s') = execution_logs (working s)"
  using assms
  by (auto simp: action_remove_from_cart_def Let_def
      split: option.splits if_splits outcome.splits)

lemma action_checkout_frame:
  assumes "action_checkout ev s uid cx = (out, s')"
  shows "committed s' = committed s" and "books (working s') = books (working s)"
    and "execution_logs (working s') = execution_logs (working s)"
    and "orders (working s') = orders (working s) \<or>
         (\<exists>r. orders (working s') = orders (working s) @ [r] \<and> order_status r = ''created'')"
  using assms
  by (auto simp: action_checkout_def Let_def
      split: option.splits if_splits outcome.splits)

lemma action_process_payment_frame:
  assumes "action_process_payment ev s cx = (out, s')"
  shows "committed s' = committed s" and "books (working s') = books (working s)"
    and "execution_logs (working s') = execution_logs (working s)"
  using assms
  by (auto simp: action_process_payment_def Let_def
      split: option.splits if_splits outcome.splits)

lemma action_cancel_order_frame:
  assumes "action_cancel_order ev s cx = (out, s')"
  shows "committed s' = committed s" and "books (working s') = books (working s)"
    and "execution_logs (working s') = execution_logs (working s)"
  using assms
  by (auto simp: action_cancel_order_def Let_def
      split: option.splits if_splits outcome.splits)

lemma dispatch_action_frame:
  assumes "dispatch_action ev s st = (out, s')"
  shows "committed s' = committed s" and "books (working s') = books (working s)"
    and "execution_logs (working s') = execution_logs (working s)"
  using assms
  by (auto simp: dispatch_action_def Let_def split: if_splits
      dest: action_add_to_cart_frame action_remove_from_cart_frame action_checkout_frame
        action_process_payment_frame action_cancel_order_frame)

lemma apply_action_frame:
  assumes "apply_action ev s st = (st', s')"
  shows "committed s' = committed s" and "books (working s') = books (working s)"
    and "execution_logs (working s') = execution_logs (working s)"
  using assms
  by (auto simp: apply_action_def Let_def split: prod.splits outcome.splits
      dest: dispatch_action_frame)

lemma apply_action_fields:
  assumes "apply_action ev s st = (st', s')"
  shows "state_trace st' = state_trace st @ [''APPLY_ACTION'']"
    and "flow_function st' = flow_function st" and "flow_ctx st' = flow_ctx st"
    and "flow_params st' = flow_params st" and "user_id st' = user_id st"
  using assms by (auto simp: apply_action_def Let_def split: prod.splits outcome.splits)

lemma persist_state_cases:
  assumes "persist_state ev s st = (out, s')"
  shows "(out = Returned (st\<lparr>state_trace := state_trace st @ [''PERSIST'']\<rparr>) \<and>
           (s' = s\<lparr>committed := working s\<rparr> \<or> s' = s\<lparr>working := committed s\<rparr>))
         \<or> ((\<exists>m. out = Raised m) \<and> s' = s)"
  using assms by (auto simp: persist_state_def Let_def split: option.splits)

lemma build_response_fields:
  "state_trace (build_response ev st) = state_trace st @ [''BUILD_RESPONSE'']"
  "flow_function (build_response ev st) = flow_function st"
  "flow_ctx (build_response ev st) = flow_ctx st"
  "flow_params (build_response ev st) = flow_params st"
  "action_result (build_response ev st) = action_result st"
  "error (build_response ev st) = error st"
  by (simp_all add: build_response_def Let_def)

subsection \<open>Flow engine: the runner\<close>

lemma validate_input_ctx:
  "flow_ctx (validate_input (initial_state fn uid q ps)) = empty_ctx"
  by (simp add: validate_input_def initial_state_def Let_def)

text \<open>A run that does not stop at ASK\_INPUT: the context load raises, or the action
  leaves an error and PERSIST is skipped, or PERSIST runs.\<close>

lemma run_flow_cases:
  assumes "\<not> missing_required fn ps" and "run_flow ev s fn uid q ps = (out, s')"
  obtains
    (load_raised) m where "out = Raised m" and "s' = s"
  | (skipped) st1 st2 where
      "load_context ev (working s) (validate_input (initial_state fn uid q ps)) = Returned st1"
      and "apply_action ev s st1 = (st2, s')" and "truthy_str (error st2)"
      and "out = Returned (build_response ev st2)"
  | (persist_raised) st1 st2 s2 m where
      "load_context ev (working s) (validate_input (initial_state fn uid q ps)) = Returned st1"
      and "apply_action ev s st1 = (st2, s2)" and "\<not> truthy_str (error st2)"
      and "persist_state ev s2 st2 = (Raised m, s')" and "out = Raised m"
  | (persisted) st1 st2 s2 st3 where
      "load_context ev (working s) (validate_input (initial_state fn uid q ps)) = Returned st1"
      and "apply_action ev s st1 = (st2, s2)" and "\<not> truthy_str (error st2)"
      and "persist_state ev s2 st2 = (Returned st3, s')"
      and "out = Returned (build_response ev st3)"
proof (cases "load_context ev (working s) (validate_input (initial_state fn uid q ps))")
  case (Raised m)
  with assms have "out = Raised m" "s' = s"
    by (simp_all add: run_flow_def Let_def needs_input_iff)
  then show ?thesis by (rule load_raised)
next
  case (Returned st1)
  obtain st2 s2 where ap: "apply_action ev s st1 = (st2, s2)" by (cases "apply_action ev s st1")
  show ?thesis
  proof (cases "truthy_str (error st2)")
    case True
    with assms Returned ap have "out = Returned (build_response ev st2)" "s' = s2"
      by (simp_all add: run_flow_def Let_def needs_input_iff)
    with Returned ap True show ?thesis by (auto intro: skipped)
  next
    case False
    obtain out3 s3 where pe: "persist_state ev s2 st2 = (out3, s3)"
      by (cases "persist_state ev s2 st2")
    show ?thesis
    proof (cases out3)
      case (Raised m)
      with assms Returned ap False pe have "out = Raised m" "s' = s3"
        by (simp_all add: run_flow_def Let_def needs_input_iff del: Returned)
      with \<open>load_context ev (working s) (validate_input (initial_state fn uid q ps)) = Returned st1\<close>
        ap False pe Raised show ?thesis by (auto intro: persist_raised)
    next
      case (Returned st3)
      with assms \<open>load_context ev (working s) (validate_input (initial_state fn uid q ps)) = Returned st1\<close>
        ap False pe have "out = Returned (build_response ev st3)" "s' = s3"
        by (simp_all add: run_flow_def Let_def needs_input_iff)
      with \<open>load_context ev (working s) (validate_input (initial_state fn uid q ps)) = Returned st1\<close>
        ap False pe Returned show ?thesis by (auto intro: persisted)
    qed
  qed
qed

lemma run_flow_missing:
  assumes "missing_required fn ps"
  shows "run_flow ev s fn uid q ps =
     (Returned ((validate_input (initial_state fn uid q ps))\<lparr>
        response := ''Para continuar, necesito que me indiques '' @
           join_comma (map field_name
             (if fn = ''cancel_order'' then [''order_id''] else [''book_id''])) @ ''.'',
        state_trace := [''VALIDATE_INPUT'', ''ASK_INPUT'']\<rparr>), s)"
  using assms
  by (simp add: run_flow_def Let_def needs_input_iff validate_input_fields validate_input_missing)

text \<open>The state that a finished run returns keeps the context that LOAD\_CONTEXT built,
  and its trace starts with the three states before PERSIST.\<close>

lemma run_flow_returned:
  assumes "\<not> missing_required fn ps" and "run_flow ev s fn uid q ps = (Returned st, s')"
  obtains st1 st2 s2 where
    "load_context ev (working s) (validate_input (initial_state fn uid q ps)) = Returned st1"
    and "apply_action ev s st1 = (st2, s2)"
    and "flow_ctx st = flow_ctx st1" and "flow_params st = flow_params st1"
    and "action_result st = action_result st2" and "error st = error st2"
    and "flow_function st = fn"
    and "take 3 (state_trace st) = [''VALIDATE_INPUT'', ''LOAD_CONTEXT'', ''APPLY_ACTION'']"
    and "truthy_str (error st2) \<and> s' = s2 \<and> st = build_response ev st2
         \<or> \<not> truthy_str (error st2) \<and>
           (s' = s2\<lparr>committed := working s2\<rparr> \<or> s' = s2\<lparr>working := committed s2\<rparr>) \<and>
           st = build_response ev (st2\<lparr>state_trace := state_trace st2 @ [''PERSIST'']\<rparr>)"
  using assms(1,2)
proof (cases rule: run_flow_cases)
  case (skipped st1 st2)
  note lc = load_context_fields [OF skipped(1)] and ap = apply_action_fields [OF skipped(2)]
  from skipped(4) have st: "st = build_response ev st2" by simp
  show ?thesis
  proof (rule that [OF skipped(1) skipped(2)])
    show "take 3 (state_trace st) = [''VALIDATE_INPUT'', ''LOAD_CONTEXT'', ''APPLY_ACTION'']"
      by (simp add: st build_response_fields ap lc validate_input_fields)
    show "flow_function st = fn"
      by (simp add: st build_response_fields ap lc validate_input_fields)
  qed (use skipped(3) in \<open>simp_all add: st build_response_fields ap\<close>)
next
  case (persisted st1 st2 s2 st3)
  note lc = load_context_fields [OF persisted(1)] and ap = apply_action_fields [OF persisted(2)]
  from persist_state_cases [OF persisted(4)]
  have st3: "st3 = st2\<lparr>state_trace := state_trace st2 @ [''PERSIST'']\<rparr>"
    and s': "s' = s2\<lparr>committed := working s2\<rparr> \<or> s' = s2\<lparr>working := committed s2\<rparr>"
    by auto
  from persisted(5) have st: "st = build_response ev st3" by simp
  show ?thesis
  proof (rule that [OF persisted(1) persisted(2)])
    show "take 3 (state_trace st) = [''VALIDATE_INPUT'', ''LOAD_CONTEXT'', ''APPLY_ACTION'']"
      by (simp add: st st3 build_response_fields ap lc validate_input_fields)
    show "flow_function st = fn"
      by (simp add: st st3 build_response_fields ap lc validate_input_fields)
  qed (use persisted(3) s' in \<open>simp_all add: st st3 build_response_fields ap\<close>)
qed simp_all

subsection \<open>Claims about the flow engine\<close>

text \<open>
  Claim C7.  When the required field of the action is missing (no resolved book id for
  \<open>add_book_to_cart\<close> or \<open>remove_book_from_cart\<close>, no order id for \<open>cancel_order\<close>), the
  run returns one and the same state for every environment and every session, and returns
  the session as it got it: \<open>needs_input\<close> is set, \<open>missing_fields\<close> names the field, the
  response asks for it, and the trace is VALIDATE\_INPUT, ASK\_INPUT.  No other run that
  returns bypasses LOAD\_CONTEXT and APPLY\_ACTION: its trace starts with VALIDATE\_INPUT,
  LOAD\_CONTEXT, APPLY\_ACTION.  A missing quantity of \<open>add_book_to_cart\<close> is never a missing
  field: the quantity becomes 1.
\<close>

theorem missing_field_asks_without_storage:
  "(missing_required fn ps \<longrightarrow>
      (\<exists>st. (\<forall>ev s. run_flow ev s fn uid q ps = (Returned st, s)) \<and>
            needs_input st \<and>
            missing_fields st = (if fn = ''cancel_order'' then [''order_id''] else [''book_id'']) \<and>
            response st = ''Para continuar, necesito que me indiques '' @
              (if fn = ''cancel_order'' then ''el n'' @ u_acute @ ''mero de orden''
               else ''el ID del libro'') @ ''.'' \<and>
            state_trace st = [''VALIDATE_INPUT'', ''ASK_INPUT'']))
   \<and> (\<not> missing_required fn ps \<longrightarrow>
        (\<forall>ev s st s'. run_flow ev s fn uid q ps = (Returned st, s') \<longrightarrow>
           take 3 (state_trace st) = [''VALIDATE_INPUT'', ''LOAD_CONTEXT'', ''APPLY_ACTION'']))
   \<and> (fn = ''add_book_to_cart'' \<and> \<not> truthy_int (p_quantity ps) \<longrightarrow>
        p_quantity (flow_params (validate_input (initial_state fn uid q ps))) = Some 1 \<and>
        ''quantity'' \<notin> set (missing_fields (validate_input (initial_state fn uid q ps))))"
proof (intro conjI impI)
  assume m: "missing_required fn ps"
  let ?st = "(validate_input (initial_state fn uid q ps))\<lparr>
        response := ''Para continuar, necesito que me indiques '' @
           join_comma (map field_name
             (if fn = ''cancel_order'' then [''order_id''] else [''book_id''])) @ ''.'',
        state_trace := [''VALIDATE_INPUT'', ''ASK_INPUT'']\<rparr>"
  have "\<forall>ev s. run_flow ev s fn uid q ps = (Returned ?st, s)"
    using run_flow_missing [OF m] by simp
  moreover have "needs_input ?st" using m by (simp add: needs_input_iff)
  moreover have "missing_fields ?st =
      (if fn = ''cancel_order'' then [''order_id''] else [''book_id''])"
    using m by (simp add: validate_input_missing)
  moreover have "response ?st = ''Para continuar, necesito que me indiques '' @
              (if fn = ''cancel_order'' then ''el n'' @ u_acute @ ''mero de orden''
               else ''el ID del libro'') @ ''.''"
    by (simp add: field_name_def)
  moreover have "state_trace ?st = [''VALIDATE_INPUT'', ''ASK_INPUT'']" by simp
  ultimately show "\<exists>st. (\<forall>ev s. run_flow ev s fn uid q ps = (Returned st, s)) \<and>
            needs_input st \<and>
            missing_fields st = (if fn = ''cancel_order'' then [''order_id''] else [''book_id'']) \<and>
            response st = ''Para continuar, necesito que me indiques '' @
              (if fn = ''cancel_order'' then ''el n'' @ u_acute @ ''mero de orden''
               else ''el ID del libro'') @ ''.'' \<and>
            state_trace st = [''VALIDATE_INPUT'', ''ASK_INPUT'']"
    by blast
next
  assume n: "\<not> missing_required fn ps"
  show "\<forall>ev s st s'. run_flow ev s fn uid q ps = (Returned st, s') \<longrightarrow>
           take 3 (state_trace st) = [''VALIDATE_INPUT'', ''LOAD_CONTEXT'', ''APPLY_ACTION'']"
  proof (intro allI impI)
    fix ev s st s'
    assume "run_flow ev s fn uid q ps = (Returned st, s')"
    with n show "take 3 (state_trace st) =
        [''VALIDATE_INPUT'', ''LOAD_CONTEXT'', ''APPLY_ACTION'']"
      by (rule run_flow_returned)
  qed
next
  assume "fn = ''add_book_to_cart'' \<and> \<not> truthy_int (p_quantity ps)"
  then show "p_quantity (flow_params (validate_input (initial_state fn uid q ps))) = Some 1"
    by (simp add: validate_input_params)
next
  assume "fn = ''add_book_to_cart'' \<and> \<not> truthy_int (p_quantity ps)"
  then show "''quantity'' \<notin> set (missing_fields (validate_input (initial_state fn uid q ps)))"
    by (simp add: validate_input_missing)
qed

text \<open>The definitions to unfold when a run is evaluated on the example store.\<close>

lemmas flow_eval =
  run_flow_def validate_input_def initial_state_def load_context_def apply_action_def
  dispatch_action_def action_add_to_cart_def action_remove_from_cart_def action_checkout_def
  action_process_payment_def action_cancel_order_def build_payment_confirmation_def
  payment_refusal_def persist_state_def build_response_def build_transactional_response_def
  build_fallback_response_def TRANSACTIONAL_ACTIONS_def execute_def active_cart_def
  target_order_def cart_for_def new_cart_def next_id_def get_quantity_def get_message_def
  truthy_int_def truthy_str_def empty_ctx_def empty_result_def failure_def field_name_def
  quiet_def failing_at_def demo_session_def demo_db_def Let_def

lemma demo_add_returns:
  "\<exists>st s'. run_flow (quiet (1 / 2)) demo_session ''add_book_to_cart'' 1 ''agrega Dune''
             \<lparr>p_book_id = Some 1, p_quantity = None, p_order_id = None\<rparr> = (Returned st, s')"
  by (simp add: flow_eval)

text \<open>Witness: a cancellation without an order number is answered by the request for it,
  on the untouched example session; adding book 1 without a quantity is not, its run goes
  through LOAD\_CONTEXT and APPLY\_ACTION, and the quantity is 1.\<close>

theorem missing_field_asks_without_storage_witness:
  "missing_required ''cancel_order'' \<lparr>p_book_id = None, p_quantity = None, p_order_id = None\<rparr>
   \<and> (\<exists>st. run_flow (quiet (1 / 2)) demo_session ''cancel_order'' 1 ''cancela mi pedido''
               \<lparr>p_book_id = None, p_quantity = None, p_order_id = None\<rparr>
             = (Returned st, demo_session) \<and>
            response st = ''Para continuar, necesito que me indiques el n'' @ u_acute @
                          ''mero de orden.'' \<and>
            state_trace st = [''VALIDATE_INPUT'', ''ASK_INPUT''])
   \<and> \<not> missing_required ''add_book_to_cart''
          \<lparr>p_book_id = Some 1, p_quantity = None, p_order_id = None\<rparr>
   \<and> (\<exists>st s'. run_flow (quiet (1 / 2)) demo_session ''add_book_to_cart'' 1 ''agrega Dune''
                  \<lparr>p_book_id = Some 1, p_quantity = None, p_order_id = None\<rparr>
                = (Returned st, s') \<and>
               take 3 (state_trace st) = [''VALIDATE_INPUT'', ''LOAD_CONTEXT'', ''APPLY_ACTION''])
   \<and> p_quantity (flow_params (validate_input (initial_state ''add_book_to_cart'' 1
          ''agrega Dune'' \<lparr>p_book_id = Some 1, p_quantity = None, p_order_id = None\<rparr>)))
       = Some 1"
proof -
  have m: "missing_required ''cancel_order''
             \<lparr>p_book_id = None, p_quantity = None, p_order_id = None\<rparr>"
    by (simp add: missing_required_def truthy_int_def)
  have n: "\<not> missing_required ''add_book_to_cart''
             \<lparr>p_book_id = Some 1, p_quantity = None, p_order_id = None\<rparr>"
    by (simp add: missing_required_def truthy_int_def)
  have q: "\<not> truthy_int (p_quantity \<lparr>p_book_id = Some 1, p_quantity = None, p_order_id = None\<rparr>)"
    by (simp add: truthy_int_def)
  from m missing_field_asks_without_storage
         [of "''cancel_order''" "\<lparr>p_book_id = None, p_quantity = None, p_order_id = None\<rparr>"
             1 "''cancela mi pedido''"]
  have a: "\<exists>st. run_flow (quiet (1 / 2)) demo_session ''cancel_order'' 1 ''cancela mi pedido''
               \<lparr>p_book_id = None, p_quantity = None, p_order_id = None\<rparr>
             = (Returned st, demo_session) \<and>
            response st = ''Para continuar, necesito que me indiques el n'' @ u_acute @
                          ''mero de orden.'' \<and>
            state_trace st = [''VALIDATE_INPUT'', ''ASK_INPUT'']"
    by auto
  from n q demo_add_returns missing_field_asks_without_storage
         [of "''add_book_to_cart''" "\<lparr>p_book_id = Some 1, p_quantity = None, p_order_id = None\<rparr>"
             1 "''agrega Dune''"]
  have b: "(\<exists>st s'. run_flow (quiet (1 / 2)) demo_session ''add_book_to_cart'' 1 ''agrega Dune''
                  \<lparr>p_book_id = Some 1, p_quantity = None, p_order_id = None\<rparr>
                = (Returned st, s') \<and>
               take 3 (state_trace st) = [''VALIDATE_INPUT'', ''LOAD_CONTEXT'', ''APPLY_ACTION''])
      \<and> p_quantity (flow_params (validate_input (initial_state ''add_book_to_cart'' 1
          ''agrega Dune'' \<lparr>p_book_id = Some 1, p_quantity = None, p_order_id = None\<rparr>)))
       = Some 1"
    by fastforce
  from m n a b show ?thesis by blast
qed

lemma session_copy_clean:
  "committed s = working s \<Longrightarrow> s\<lparr>committed := working s\<rparr> = s"
  "committed s = working s \<Longrightarrow> s\<lparr>working := committed s\<rparr> = s"
  by (cases s, simp)+

text \<open>
  Claim C4.  \<open>_action_add_to_cart\<close> on a context whose book has fewer copies in stock than
  the requested quantity returns \<open>{"success": False, "message": "Stock insuficiente"}\<close> and
  the session as it got it.  For a whole run on a clean session: when the book that
  LOAD\_CONTEXT found (a row of \<open>books\<close> with the requested id and that stock) has fewer
  copies than requested, the result and the response are that refusal and the session is
  returned unchanged, so no cart and no cart item is created or updated and no stock changes.
\<close>

theorem insufficient_stock_is_refused:
  "(c_book cx = Some bk \<and> bk_stock bk < get_quantity ps \<longrightarrow>
      action_add_to_cart ev s uid ps cx = (Returned (failure ''Stock insuficiente''), s))
   \<and> (committed s = working s \<and>
        run_flow ev s ''add_book_to_cart'' uid q ps = (Returned st, s') \<and>
        c_book (flow_ctx st) = Some bk \<and> bk_stock bk < get_quantity (flow_params st) \<longrightarrow>
        action_result st = failure ''Stock insuficiente'' \<and>
        response st = ''Stock insuficiente'' \<and> s' = s \<and>
        (\<exists>b \<in> set (books (working s)).
            Some (book_id b) = p_book_id ps \<and> book_stock b = bk_stock bk))"
proof (intro conjI impI)
  assume "c_book cx = Some bk \<and> bk_stock bk < get_quantity ps"
  then show "action_add_to_cart ev s uid ps cx = (Returned (failure ''Stock insuficiente''), s)"
    by (simp add: action_add_to_cart_def)
next
  assume a: "committed s = working s \<and>
        run_flow ev s ''add_book_to_cart'' uid q ps = (Returned st, s') \<and>
        c_book (flow_ctx st) = Some bk \<and> bk_stock bk < get_quantity (flow_params st)"
  then have clean: "committed s = working s"
    and run: "run_flow ev s ''add_book_to_cart'' uid q ps = (Returned st, s')"
    and bk: "c_book (flow_ctx st) = Some bk" and low: "bk_stock bk < get_quantity (flow_params st)"
    by simp_all
  have present: "\<not> missing_required ''add_book_to_cart'' ps"
  proof
    assume "missing_required ''add_book_to_cart'' ps"
    from run_flow_missing [OF this, of ev s uid q] run
    have "flow_ctx st = empty_ctx" by (auto simp: validate_input_ctx)
    with bk show False by (simp add: empty_ctx_def)
  qed
  from present run obtain st1 st2 s2 where
    lc: "load_context ev (working s)
           (validate_input (initial_state ''add_book_to_cart'' uid q ps)) = Returned st1"
    and ap: "apply_action ev s st1 = (st2, s2)"
    and cx: "flow_ctx st = flow_ctx st1" and ps: "flow_params st = flow_params st1"
    and res: "action_result st = action_result st2"
    and fin: "truthy_str (error st2) \<and> s' = s2 \<and> st = build_response ev st2
         \<or> \<not> truthy_str (error st2) \<and>
           (s' = s2\<lparr>committed := working s2\<rparr> \<or> s' = s2\<lparr>working := committed s2\<rparr>) \<and>
           st = build_response ev (st2\<lparr>state_trace := state_trace st2 @ [''PERSIST'']\<rparr>)"
    by (rule run_flow_returned)
  note f1 = load_context_fields [OF lc]
  have "dispatch_action ev s st1 = (Returned (failure ''Stock insuficiente''), s)"
    using bk low by (simp add: dispatch_action_def Let_def f1 validate_input_fields cx ps
        action_add_to_cart_def)
  with ap have st2: "st2 = st1\<lparr>state_trace := state_trace st1 @ [''APPLY_ACTION''],
      action_result := failure ''Stock insuficiente'', error := None\<rparr>" and s2: "s2 = s"
    by (simp_all add: apply_action_def Let_def)
  from fin clean have s': "s' = s"
    and st: "st = build_response ev (st2\<lparr>state_trace := state_trace st2 @ [''PERSIST'']\<rparr>)"
    by (auto simp: st2 s2 truthy_str_def session_copy_clean)
  show "action_result st = failure ''Stock insuficiente''" by (simp add: res st2)
  show "s' = s" by (rule s')
  show "response st = ''Stock insuficiente''"
    by (simp add: st st2 build_response_def Let_def truthy_str_def f1 validate_input_fields
        TRANSACTIONAL_ACTIONS_def build_transactional_response_def failure_def
        empty_result_def get_message_def)
  from load_context_book [OF lc] bk cx
  show "\<exists>b \<in> set (books (working s)). Some (book_id b) = p_book_id ps \<and>
          book_stock b = bk_stock bk"
    by (auto simp: validate_input_params split: if_splits)
qed

lemma demo_add_thirty:
  "\<exists>st s'. run_flow (quiet (1 / 2)) demo_session ''add_book_to_cart'' 1 ''compra 30 Dune''
             \<lparr>p_book_id = Some 1, p_quantity = Some 30, p_order_id = None\<rparr> = (Returned st, s')
     \<and> c_book (flow_ctx st) = Some \<lparr>bk_id = 1, bk_title = ''Dune'', bk_price = 12.5,
                                     bk_stock = 25\<rparr>
     \<and> flow_params st = \<lparr>p_book_id = Some 1, p_quantity = Some 30, p_order_id = None\<rparr>"
  by (simp add: flow_eval)

text \<open>Witness: thirty copies of a book with 25 in stock, on the example store.\<close>

theorem insufficient_stock_is_refused_witness:
  "\<exists>st. run_flow (quiet (1 / 2)) demo_session ''add_book_to_cart'' 1 ''compra 30 Dune''
          \<lparr>p_book_id = Some 1, p_quantity = Some 30, p_order_id = None\<rparr>
        = (Returned st, demo_session)
      \<and> c_book (flow_ctx st) = Some \<lparr>bk_id = 1, bk_title = ''Dune'', bk_price = 12.5,
                                      bk_stock = 25\<rparr>
      \<and> action_result st = failure ''Stock insuficiente''
      \<and> response st = ''Stock insuficiente''"
proof -
  from demo_add_thirty obtain st s' where
    run: "run_flow (quiet (1 / 2)) demo_session ''add_book_to_cart'' 1 ''compra 30 Dune''
             \<lparr>p_book_id = Some 1, p_quantity = Some 30, p_order_id = None\<rparr> = (Returned st, s')"
    and bk: "c_book (flow_ctx st) = Some \<lparr>bk_id = 1, bk_title = ''Dune'', bk_price = 12.5,
                                     bk_stock = 25\<rparr>"
    and ps: "flow_params st = \<lparr>p_book_id = Some 1, p_quantity = Some 30, p_order_id = None\<rparr>"
    by blast
  have clean: "committed demo_session = working demo_session" by (simp add: demo_session_def)
  have low: "bk_stock \<lparr>bk_id = 1, bk_title = ''Dune'', bk_price = 12.5, bk_stock = 25\<rparr>
               < get_quantity (flow_params st)"
    by (simp add: ps get_quantity_def)
  from insufficient_stock_is_refused
         [where bk = "\<lparr>bk_id = 1, bk_title = ''Dune'', bk_price = 12.5, bk_stock = 25\<rparr>"
            and ev = "quiet (1 / 2)" and s = demo_session and uid = 1
            and q = "''compra 30 Dune''"
            and ps = "\<lparr>p_book_id = Some 1, p_quantity = Some 30, p_order_id = None\<rparr>"
            and st = st and s' = s']
       clean run bk low
  have "action_result st = failure ''Stock insuficiente''"
    and "response st = ''Stock insuficiente''" and "s' = demo_session"
    by simp_all
  with run bk show ?thesis by blast
qed

text \<open>One run leaves the rows of \<open>books\<close> as they are, in the transaction and in the
  database.\<close>

lemma run_flow_books:
  assumes "run_flow ev s fn uid q ps = (out, s')"
    and "books (committed s) = books (working s)"
  shows "books (working s') = books (working s) \<and> books (committed s') = books (working s)"
proof (cases "missing_required fn ps")
  case True
  from run_flow_missing [OF True, of ev s uid q] assms show ?thesis by simp
next
  case False
  from False assms(1) show ?thesis
  proof (cases rule: run_flow_cases)
    case (load_raised m)
    with assms(2) show ?thesis by simp
  next
    case (skipped st1 st2)
    from apply_action_frame [OF skipped(2)] assms(2) show ?thesis by simp
  next
    case (persist_raised st1 st2 s2 m)
    from apply_action_frame [OF persist_raised(2)] persist_state_cases [OF persist_raised(4)]
      assms(2)
    show ?thesis by auto
  next
    case (persisted st1 st2 s2 st3)
    from apply_action_frame [OF persisted(2)] persist_state_cases [OF persisted(4)] assms(2)
    show ?thesis by auto
  qed
qed

lemma run_requests_books:
  assumes "books (committed s) = books (working s)"
  shows "books (working (run_requests s rs)) = books (working s) \<and>
         books (committed (run_requests s rs)) = books (working s)"
  using assms
proof (induction rs arbitrary: s)
  case Nil
  then show ?case by simp
next
  case (Cons r rs)
  obtain out s1 where run:
    "run_flow (rq_env r) s (rq_function r) (rq_user r) (rq_query r) (rq_params r) = (out, s1)"
    by (cases "run_flow (rq_env r) s (rq_function r) (rq_user r) (rq_query r) (rq_params r)")
  from run_flow_books [OF run Cons.prems]
  have b: "books (working s1) = books (working s)" "books (committed s1) = books (working s)"
    by simp_all
  then have "books (committed s1) = books (working s1)" by simp
  from Cons.IH [OF this] b run show ?case by simp
qed

lemma run_flow_stock_source:
  assumes "run_flow ev s fn uid q ps = (Returned st, s')" and "c_book (flow_ctx st) = Some bk"
  shows "\<exists>b \<in> set (books (working s)). book_id b = bk_id bk \<and> book_stock b = bk_stock bk"
proof (cases "missing_required fn ps")
  case True
  from run_flow_missing [OF True, of ev s uid q] assms show ?thesis
    by (auto simp: validate_input_ctx empty_ctx_def)
next
  case False
  from False assms(1) obtain st1 where
    lc: "load_context ev (working s) (validate_input (initial_state fn uid q ps)) = Returned st1"
    and cx: "flow_ctx st = flow_ctx st1"
    by (rule run_flow_returned)
  from assms(2) cx have "c_book (flow_ctx st1) = Some bk" by simp
  from load_context_book [OF lc this] show ?thesis by auto
qed

text \<open>
  Claim C10.  Start from a session whose transaction and database hold the same \<open>books\<close>
  rows, and run any sequence of flow-engine requests (any actions, among them
  \<open>add_book_to_cart\<close>, \<open>checkout_order\<close> and \<open>confirm_payment\<close>, successful or not): the
  rows of \<open>books\<close>, hence every stock, are the same afterwards, in the transaction and in
  the database; and the stock that a following \<open>add_book_to_cart\<close> checks is the stock of a
  row of the original catalogue.
\<close>

theorem books_never_modified:
  assumes "books (committed s) = books (working s)"
  shows "books (working (run_requests s rs)) = books (working s)
       \<and> books (committed (run_requests s rs)) = books (working s)
       \<and> (\<forall>ev uid q ps st s' bk.
             run_flow ev (run_requests s rs) ''add_book_to_cart'' uid q ps = (Returned st, s')
             \<and> c_book (flow_ctx st) = Some bk \<longrightarrow>
             (\<exists>b \<in> set (books (working s)). book_id b = bk_id bk \<and> book_stock b = bk_stock bk))"
proof -
  note fixed = run_requests_books [OF assms, of rs]
  have "\<exists>b \<in> set (books (working s)). book_id b = bk_id bk \<and> book_stock b = bk_stock bk"
    if "run_flow ev (run_requests s rs) ''add_book_to_cart'' uid q ps = (Returned st, s')"
      and "c_book (flow_ctx st) = Some bk"
    for ev uid q ps st s' bk
    using run_flow_stock_source [OF that] fixed by simp
  with fixed show ?thesis by blast
qed

lemma sort_key_single: "sort_key f [x] = [x]"
  by simp

lemma demo_purchase_run:
  "carts (working (run_requests demo_session demo_purchase))
     = [\<lparr>cart_id = 1, cart_user_id = 1, cart_status = ''checked_out''\<rparr>]
   \<and> cart_items (working (run_requests demo_session demo_purchase))
     = [\<lparr>item_id = 1, item_cart_id = 1, item_book_id = 1, item_quantity = 2\<rparr>]
   \<and> orders (committed (run_requests demo_session demo_purchase))
     = [\<lparr>order_id = 7, order_user_id = 1, order_status = ''created'', order_total = 25,
         order_created_at = 500\<rparr>,
        \<lparr>order_id = 8, order_user_id = 1, order_status = ''paid'', order_total = 10,
         order_created_at = 400\<rparr>,
        \<lparr>order_id = 9, order_user_id = 1, order_status = ''paid'', order_total = 25,
         order_created_at = 1000\<rparr>]
   \<and> order_items (committed (run_requests demo_session demo_purchase))
     = [\<lparr>oi_id = 1, oi_order_id = 9, oi_book_id = 1, oi_quantity = 2, oi_unit_price = 12.5\<rparr>]
   \<and> payments (committed (run_requests demo_session demo_purchase))
     = [\<lparr>payment_id = 1, payment_order_id = 8, payment_amount = 10,
         payment_status = ''approved''\<rparr>,
        \<lparr>payment_id = 2, payment_order_id = 9, payment_amount = 25,
         payment_status = ''approved''\<rparr>]"
  by (simp add: demo_purchase_def flow_eval)


lemma demo_add_after_purchase:
  "\<exists>st s'. run_flow (quiet (1 / 2)) (run_requests demo_session demo_purchase)
             ''add_book_to_cart'' 1 ''compra 25 Dune''
             \<lparr>p_book_id = Some 1, p_quantity = Some 25, p_order_id = None\<rparr> = (Returned st, s')
     \<and> c_book (flow_ctx st) = Some \<lparr>bk_id = 1, bk_title = ''Dune'', bk_price = 12.5,
                                     bk_stock = 25\<rparr>
     \<and> r_success (action_result st) = Some True"
  by (simp add: demo_purchase_def flow_eval)

text \<open>Witness: after the purchase of two copies of book 1 (cart line, order 9 paid, its
  payment approved), the catalogue is the one of the example store, and 25 more copies of
  the book can be added: the check reads the stock 25 of the original row.\<close>

theorem books_never_modified_witness:
  "books (committed demo_session) = books (working demo_session)
   \<and> books (working (run_requests demo_session demo_purchase)) = books demo_db
   \<and> books (committed (run_requests demo_session demo_purchase)) = books demo_db
   \<and> (\<exists>st s' bk. run_flow (quiet (1 / 2)) (run_requests demo_session demo_purchase)
                    ''add_book_to_cart'' 1 ''compra 25 Dune''
                    \<lparr>p_book_id = Some 1, p_quantity = Some 25, p_order_id = None\<rparr>
                  = (Returned st, s')
          \<and> c_book (flow_ctx st) = Some bk \<and> bk_stock bk = 25
          \<and> r_success (action_result st) = Some True
          \<and> (\<exists>b \<in> set (books demo_db). book_id b = bk_id bk \<and> book_stock b = bk_stock bk))"
proof -
  have clean: "books (committed demo_session) = books (working demo_session)"
    by (simp add: demo_session_def)
  note inst = books_never_modified [OF clean, of demo_purchase]
  have w: "working demo_session = demo_db" by (simp add: demo_session_def)
  from demo_add_after_purchase obtain st s' where
    run: "run_flow (quiet (1 / 2)) (run_requests demo_session demo_purchase)
             ''add_book_to_cart'' 1 ''compra 25 Dune''
             \<lparr>p_book_id = Some 1, p_quantity = Some 25, p_order_id = None\<rparr> = (Returned st, s')"
    and bk: "c_book (flow_ctx st) = Some \<lparr>bk_id = 1, bk_title = ''Dune'', bk_price = 12.5,
                                     bk_stock = 25\<rparr>"
    and ok: "r_success (action_result st) = Some True"
    by blast
  let ?bk = "\<lparr>bk_id = 1, bk_title = ''Dune'', bk_price = 12.5, bk_stock = 25 :: int\<rparr>"
  from inst run bk
  have src: "\<exists>b \<in> set (books demo_db). book_id b = bk_id ?bk \<and> book_stock b = bk_stock ?bk"
    unfolding w by blast
  have "bk_stock ?bk = 25" by simp
  with run bk ok src
  have last: "\<exists>st s' bk. run_flow (quiet (1 / 2)) (run_requests demo_session demo_purchase)
                    ''add_book_to_cart'' 1 ''compra 25 Dune''
                    \<lparr>p_book_id = Some 1, p_quantity = Some 25, p_order_id = None\<rparr>
                  = (Returned st, s')
          \<and> c_book (flow_ctx st) = Some bk \<and> bk_stock bk = 25
          \<and> r_success (action_result st) = Some True
          \<and> (\<exists>b \<in> set (books demo_db). book_id b = bk_id bk \<and> book_stock b = bk_stock bk)"
    by blast
  from inst have "books (working (run_requests demo_session demo_purchase)) = books demo_db"
    and "books (committed (run_requests demo_session demo_purchase)) = books demo_db"
    unfolding w by simp_all
  with clean last show ?thesis by blast
qed

subsection \<open>Order status\<close>

lemma status_step_same: "status_step fn ev a a"
  by (simp add: status_step_def)

lemma orders_step_refl: "orders_step fn ev xs xs"
  by (simp add: orders_step_def list_all2_same status_step_same)

lemma orders_step_append:
  "order_status r = ''created'' \<Longrightarrow> orders_step fn ev xs (xs @ [r])"
  by (simp add: orders_step_def list_all2_same status_step_same)

lemma orders_step_update:
  assumes "\<forall>r \<in> set xs. order_id r = i \<longrightarrow> status_step fn ev r (r\<lparr>order_status := v\<rparr>)"
  shows "orders_step fn ev xs (map (\<lambda>r. if order_id r = i then r\<lparr>order_status := v\<rparr> else r) xs)"
  using assms
  by (auto simp: orders_step_def list_all2_map2 list_all2_same status_step_same)

text \<open>The row that \<open>scalar_one\<close> hands to the action is the row the context was loaded
  from: the only row of \<open>orders\<close> with that id.\<close>

lemma sole_order_row:
  assumes "scalar_one (filter (\<lambda>r. order_id r = i) xs) = Returned d"
    and "r \<in> set xs" and "order_id r = i"
  shows "r = d" and "order_id d = i"
proof -
  from assms(1) have one: "filter (\<lambda>r. order_id r = i) xs = [d]" by (rule scalar_one_Returned)
  from assms(2,3) have "r \<in> set (filter (\<lambda>r. order_id r = i) xs)" by simp
  with one show "r = d" by simp
  with assms(3) show "order_id d = i" by simp
qed

lemma action_process_payment_orders:
  assumes run: "action_process_payment ev s cx = (out, s')"
    and src: "\<And>oc. c_order cx = Some oc \<Longrightarrow>
           \<exists>r \<in> set (orders (working s)). order_id r = oc_id oc \<and> order_status r = oc_status oc"
  shows "orders_step ''confirm_payment'' ev (orders (working s)) (orders (working s'))"
proof (cases "c_order cx")
  case None
  with run show ?thesis by (simp add: action_process_payment_def orders_step_refl)
next
  case (Some oc)
  show ?thesis
  proof (cases "payment_refusal oc")
    case (Some refusal)
    with run \<open>c_order cx = Some oc\<close> show ?thesis
      by (simp add: action_process_payment_def orders_step_refl)
  next
    case None
    then have created: "oc_status oc = ''created''"
      by (simp add: payment_refusal_def split: if_splits)
    from src [OF \<open>c_order cx = Some oc\<close>] obtain r0 where
      r0: "r0 \<in> set (orders (working s))" "order_id r0 = oc_id oc"
          "order_status r0 = oc_status oc"
      by blast
    show ?thesis
    proof (cases "fault ev Payment_Order")
      case (Some m)
      with run \<open>c_order cx = Some oc\<close> None show ?thesis
        by (auto simp: action_process_payment_def Let_def execute_def orders_step_refl)
    next
      case noFault: None
      show ?thesis
      proof (cases "scalar_one (filter (\<lambda>r. order_id r = oc_id oc) (orders (working s)))")
        case (Raised m)
        with run \<open>c_order cx = Some oc\<close> None noFault show ?thesis
          by (auto simp: action_process_payment_def Let_def execute_def orders_step_refl)
      next
        case (Returned d)
        from sole_order_row [OF Returned r0(1,2)] r0(3) created
        have d: "order_id d = oc_id oc" "order_status d = ''created''" by simp_all
        have all: "\<forall>r \<in> set (orders (working s)). order_id r = order_id d \<longrightarrow>
            status_step ''confirm_payment'' ev r
              (r\<lparr>order_status := (if random_draw ev < 0.85 then ''paid'' else ''created'')\<rparr>)"
        proof (intro ballI impI)
          fix r assume "r \<in> set (orders (working s))" and "order_id r = order_id d"
          with sole_order_row(1) [OF Returned, of r] d have "r = d" by simp
          with d show "status_step ''confirm_payment'' ev r
              (r\<lparr>order_status := (if random_draw ev < 0.85 then ''paid'' else ''created'')\<rparr>)"
            by (simp add: status_step_def)
        qed
        from run \<open>c_order cx = Some oc\<close> None noFault Returned
        have "orders (working s') =
            map (\<lambda>r. if order_id r = order_id d
                      then r\<lparr>order_status := (if random_draw ev < 0.85 then ''paid'' else ''created'')\<rparr>
                      else r) (orders (working s))"
          by (auto simp: action_process_payment_def Let_def execute_def)
        with orders_step_update [OF all] show ?thesis by simp
      qed
    qed
  qed
qed

lemma action_cancel_order_orders:
  assumes run: "action_cancel_order ev s cx = (out, s')"
    and src: "\<And>oc. c_order cx = Some oc \<Longrightarrow>
           \<exists>r \<in> set (orders (working s)). order_id r = oc_id oc \<and> order_status r = oc_status oc"
  shows "orders_step ''cancel_order'' ev (orders (working s)) (orders (working s'))"
proof (cases "c_order cx")
  case None
  with run show ?thesis by (simp add: action_cancel_order_def orders_step_refl)
next
  case (Some oc)
  show ?thesis
  proof (cases "oc_status oc = ''paid'' \<or> oc_status oc = ''cancelled''")
    case True
    with run Some show ?thesis by (auto simp: action_cancel_order_def orders_step_refl)
  next
    case False
    from src [OF Some] obtain r0 where
      r0: "r0 \<in> set (orders (working s))" "order_id r0 = oc_id oc"
          "order_status r0 = oc_status oc"
      by blast
    show ?thesis
    proof (cases "fault ev Cancel_Order")
      case (Some m)
      with run \<open>c_order cx = Some oc\<close> False show ?thesis
        by (auto simp: action_cancel_order_def Let_def execute_def orders_step_refl)
    next
      case noFault: None
      show ?thesis
      proof (cases "scalar_one (filter (\<lambda>r. order_id r = oc_id oc) (orders (working s)))")
        case (Raised m)
        with run \<open>c_order cx = Some oc\<close> False noFault show ?thesis
          by (auto simp: action_cancel_order_def Let_def execute_def orders_step_refl)
      next
        case (Returned d)
        from sole_order_row [OF Returned r0(1,2)] r0(3) False
        have d: "order_id d = oc_id oc" "order_status d \<noteq> ''paid''"
          "order_status d \<noteq> ''cancelled''" by simp_all
        have all: "\<forall>r \<in> set (orders (working s)). order_id r = order_id d \<longrightarrow>
            status_step ''cancel_order'' ev r (r\<lparr>order_status := ''cancelled''\<rparr>)"
        proof (intro ballI impI)
          fix r assume "r \<in> set (orders (working s))" and "order_id r = order_id d"
          with sole_order_row(1) [OF Returned, of r] d have "r = d" by simp
          with d show "status_step ''cancel_order'' ev r (r\<lparr>order_status := ''cancelled''\<rparr>)"
            by (simp add: status_step_def)
        qed
        from run \<open>c_order cx = Some oc\<close> False noFault Returned
        have "orders (working s') =
            map (\<lambda>r. if order_id r = order_id d then r\<lparr>order_status := ''cancelled''\<rparr> else r)
              (orders (working s))"
          by (auto simp: action_cancel_order_def Let_def execute_def)
        with orders_step_update [OF all] show ?thesis by simp
      qed
    qed
  qed
qed

lemma dispatch_action_orders:
  assumes run: "dispatch_action ev s st = (out, s')"
    and src: "\<And>oc. c_order (flow_ctx st) = Some oc \<Longrightarrow>
           \<exists>r \<in> set (orders (working s)). order_id r = oc_id oc \<and> order_status r = oc_status oc"
  shows "orders_step (flow_function st) ev (orders (working s)) (orders (working s'))"
proof -
  consider (add) "flow_function st = ''add_book_to_cart''"
    | (remove) "flow_function st = ''remove_book_from_cart''"
    | (checkout) "flow_function st = ''checkout_order''"
    | (pay) "flow_function st = ''confirm_payment''"
    | (cancel) "flow_function st = ''cancel_order''"
    | (other) "flow_function st \<notin> {''add_book_to_cart'', ''remove_book_from_cart'',
         ''checkout_order'', ''confirm_payment'', ''cancel_order''}"
    by blast
  then show ?thesis
  proof cases
    case add
    with run have "action_add_to_cart ev s (user_id st) (flow_params st) (flow_ctx st) = (out, s')"
      by (simp add: dispatch_action_def Let_def)
    from action_add_to_cart_frame(3) [OF this] show ?thesis by (simp add: orders_step_refl)
  next
    case remove
    with run have "action_remove_from_cart ev s (flow_params st) (flow_ctx st) = (out, s')"
      by (simp add: dispatch_action_def Let_def)
    from action_remove_from_cart_frame(3) [OF this] show ?thesis by (simp add: orders_step_refl)
  next
    case checkout
    with run have "action_checkout ev s (user_id st) (flow_ctx st) = (out, s')"
      by (simp add: dispatch_action_def Let_def)
    from action_checkout_frame(4) [OF this] show ?thesis
      by (auto simp: orders_step_refl orders_step_append)
  next
    case pay
    with run have "action_process_payment ev s (flow_ctx st) = (out, s')"
      by (simp add: dispatch_action_def Let_def)
    from action_process_payment_orders [OF this src] pay show ?thesis by simp
  next
    case cancel
    with run have "action_cancel_order ev s (flow_ctx st) = (out, s')"
      by (simp add: dispatch_action_def Let_def)
    from action_cancel_order_orders [OF this src] cancel show ?thesis by simp
  next
    case other
    with run have "s' = s" by (auto simp: dispatch_action_def Let_def split: if_splits)
    then show ?thesis by (simp add: orders_step_refl)
  qed
qed

lemma apply_action_orders:
  assumes run: "apply_action ev s st = (st', s')"
    and src: "\<And>oc. c_order (flow_ctx st) = Some oc \<Longrightarrow>
           \<exists>r \<in> set (orders (working s)). order_id r = oc_id oc \<and> order_status r = oc_status oc"
  shows "orders_step (flow_function st) ev (orders (working s)) (orders (working s'))"
proof -
  obtain out s1 where d: "dispatch_action ev s st = (out, s1)"
    by (cases "dispatch_action ev s st")
  with run have "s' = s1" by (cases out) (simp_all add: apply_action_def Let_def)
  with dispatch_action_orders [OF d src] show ?thesis by simp
qed

text \<open>What \<open>orders_step\<close> says row by row: a \<open>paid\<close> or \<open>cancelled\<close> order is not changed,
  and a \<open>created\<close> order keeps everything but its status, which stays \<open>created\<close> or
  becomes \<open>paid\<close> (approved \<open>confirm_payment\<close>) or \<open>cancelled\<close> (\<open>cancel_order\<close>).\<close>

lemma orders_step_rows:
  assumes "orders_step fn ev old new" and "i < length old"
  shows "order_status (old ! i) = ''paid'' \<or> order_status (old ! i) = ''cancelled''
           \<Longrightarrow> new ! i = old ! i"
    and "order_status (old ! i) = ''created'' \<Longrightarrow>
           order_status (new ! i) = ''created''
           \<or> order_status (new ! i) = ''paid'' \<and> fn = ''confirm_payment'' \<and> random_draw ev < 0.85
           \<or> order_status (new ! i) = ''cancelled'' \<and> fn = ''cancel_order''"
    and "order_id (new ! i) = order_id (old ! i)"
proof -
  from assms have len: "length old \<le> length new"
    and all: "list_all2 (status_step fn ev) old (take (length old) new)"
    by (simp_all add: orders_step_def)
  from list_all2_nthD [OF all assms(2)] assms(2)
  have step: "status_step fn ev (old ! i) (new ! i)" by simp
  then have eq: "new ! i = (old ! i)\<lparr>order_status := order_status (new ! i)\<rparr>"
    by (simp add: status_step_def)
  show "order_id (new ! i) = order_id (old ! i)" by (subst eq) simp
  show "new ! i = old ! i"
    if "order_status (old ! i) = ''paid'' \<or> order_status (old ! i) = ''cancelled''"
  proof -
    from step that have "order_status (new ! i) = order_status (old ! i)"
      by (auto simp: status_step_def)
    with eq show ?thesis by simp
  qed
  show "order_status (new ! i) = ''created''
           \<or> order_status (new ! i) = ''paid'' \<and> fn = ''confirm_payment'' \<and> random_draw ev < 0.85
           \<or> order_status (new ! i) = ''cancelled'' \<and> fn = ''cancel_order''"
    if "order_status (old ! i) = ''created''"
    using step that by (auto simp: status_step_def)
qed

lemma run_flow_orders:
  assumes run: "run_flow ev s fn uid q ps = (out, s')" and clean: "committed s = working s"
  shows "orders_step fn ev (orders (working s)) (orders (working s'))
       \<and> orders_step fn ev (orders (committed s)) (orders (committed s'))"
proof (cases "missing_required fn ps")
  case True
  from run_flow_missing [OF True, of ev s uid q] run show ?thesis
    by (simp add: orders_step_refl)
next
  case False
  have step: "orders_step fn ev (orders (working s)) (orders (working s2))
      \<and> committed s2 = committed s"
    if lc: "load_context ev (working s) (validate_input (initial_state fn uid q ps)) = Returned st1"
      and ap: "apply_action ev s st1 = (st2, s2)" for st1 st2 s2
  proof -
    have "\<exists>r \<in> set (orders (working s)). order_id r = oc_id oc \<and> order_status r = oc_status oc"
      if "c_order (flow_ctx st1) = Some oc" for oc
      using load_context_order [OF lc that] by auto
    from apply_action_orders [OF ap this] apply_action_frame(1) [OF ap] load_context_fields(2) [OF lc]
    show ?thesis by (simp add: validate_input_fields)
  qed
  from False run show ?thesis
  proof (cases rule: run_flow_cases)
    case (load_raised m)
    then show ?thesis by (simp add: orders_step_refl)
  next
    case (skipped st1 st2)
    from step [OF skipped(1,2)] show ?thesis by (simp add: orders_step_refl)
  next
    case (persist_raised st1 st2 s2 m)
    from step [OF persist_raised(1,2)] persist_state_cases [OF persist_raised(4)]
    show ?thesis by (auto simp: orders_step_refl)
  next
    case (persisted st1 st2 s2 st3)
    from step [OF persisted(1,2)] persist_state_cases [OF persisted(4)] clean
    show ?thesis by (auto simp: orders_step_refl)
  qed
qed

lemma run_flow_refusal:
  assumes run: "run_flow ev s fn uid q ps = (Returned st, s')" and clean: "committed s = working s"
    and fn: "fn \<in> {''process_payment'', ''confirm_payment'', ''cancel_order''}"
    and oc: "c_order (flow_ctx st) = Some oc"
    and final: "oc_status oc = ''paid'' \<or> oc_status oc = ''cancelled''"
  shows "r_success (action_result st) = Some False
       \<and> (\<exists>m. r_message (action_result st) = Some m \<and> response st = m) \<and> s' = s"
proof -
  have present: "\<not> missing_required fn ps"
  proof
    assume "missing_required fn ps"
    from run_flow_missing [OF this, of ev s uid q] run
    have "flow_ctx st = empty_ctx" by (auto simp: validate_input_ctx)
    with oc show False by (simp add: empty_ctx_def)
  qed
  from present run obtain st1 st2 s2 where
    lc: "load_context ev (working s) (validate_input (initial_state fn uid q ps)) = Returned st1"
    and ap: "apply_action ev s st1 = (st2, s2)"
    and cx: "flow_ctx st = flow_ctx st1"
    and res: "action_result st = action_result st2"
    and fin: "truthy_str (error st2) \<and> s' = s2 \<and> st = build_response ev st2
         \<or> \<not> truthy_str (error st2) \<and>
           (s' = s2\<lparr>committed := working s2\<rparr> \<or> s' = s2\<lparr>working := committed s2\<rparr>) \<and>
           st = build_response ev (st2\<lparr>state_trace := state_trace st2 @ [''PERSIST'']\<rparr>)"
    by (rule run_flow_returned)
  note f1 = load_context_fields [OF lc]
  from oc cx have oc1: "c_order (flow_ctx st1) = Some oc" by simp
  from fn final oc1 obtain m where
    "dispatch_action ev s st1 = (Returned (failure m), s)"
    by (auto simp: dispatch_action_def Let_def f1 validate_input_fields
        build_payment_confirmation_def action_process_payment_def action_cancel_order_def
        payment_refusal_def)
  with ap have st2: "st2 = st1\<lparr>state_trace := state_trace st1 @ [''APPLY_ACTION''],
      action_result := failure m, error := None\<rparr>" and s2: "s2 = s"
    by (simp_all add: apply_action_def Let_def)
  from fin clean have s': "s' = s"
    and st: "st = build_response ev (st2\<lparr>state_trace := state_trace st2 @ [''PERSIST'']\<rparr>)"
    by (auto simp: st2 s2 truthy_str_def session_copy_clean)
  have "response st = m"
    using fn
    by (auto simp: st st2 build_response_def Let_def truthy_str_def f1 validate_input_fields
        TRANSACTIONAL_ACTIONS_def build_transactional_response_def failure_def
        empty_result_def get_message_def)
  moreover have "action_result st = failure m" by (simp add: res st2)
  ultimately show ?thesis using s' by (simp add: failure_def empty_result_def)
qed

text \<open>
  Claim C5.  For every run of the flow engine on a clean session, with whatever action and
  whatever the environment does: the \<open>orders\<close> table that the transaction sees and the one
  that the database holds each move by \<open>orders_step\<close>, so that a \<open>created\<close> order can only
  become \<open>paid\<close>, by a \<open>confirm_payment\<close> whose draw is below 0.85, or \<open>cancelled\<close>, by
  \<open>cancel_order\<close>; a payment whose draw is not below 0.85 leaves it \<open>created\<close>; and a
  \<open>paid\<close> or \<open>cancelled\<close> order is never changed.  When the target of \<open>process_payment\<close>
  (the confirmation prompt), \<open>confirm_payment\<close> (the payment) or \<open>cancel_order\<close> is \<open>paid\<close>
  or \<open>cancelled\<close>, the result is a refusal with its message as the response, and the
  session is returned unchanged.
\<close>

theorem order_status_machine:
  assumes "committed s = working s" and "run_flow ev s fn uid q ps = (out, s')"
  shows "orders_step fn ev (orders (working s)) (orders (working s'))
       \<and> orders_step fn ev (orders (committed s)) (orders (committed s'))
       \<and> (\<forall>st oc. out = Returned st
             \<and> fn \<in> {''process_payment'', ''confirm_payment'', ''cancel_order''}
             \<and> c_order (flow_ctx st) = Some oc
             \<and> (oc_status oc = ''paid'' \<or> oc_status oc = ''cancelled'') \<longrightarrow>
             r_success (action_result st) = Some False
             \<and> (\<exists>m. r_message (action_result st) = Some m \<and> response st = m) \<and> s' = s)"
proof -
  note steps = run_flow_orders [OF assms(2,1)]
  have "r_success (action_result st) = Some False
      \<and> (\<exists>m. r_message (action_result st) = Some m \<and> response st = m) \<and> s' = s"
    if "out = Returned st \<and> fn \<in> {''process_payment'', ''confirm_payment'', ''cancel_order''}
        \<and> c_order (flow_ctx st) = Some oc
        \<and> (oc_status oc = ''paid'' \<or> oc_status oc = ''cancelled'')" for st oc
  proof -
    from that assms(2) have "run_flow ev s fn uid q ps = (Returned st, s')" by simp
    from run_flow_refusal [OF this assms(1)] that show ?thesis by blast
  qed
  with steps show ?thesis by blast
qed

lemmas text_eval = str_int_def str_opt_int_def str_nat.simps fmt_2f_def get_real_def
  payment_approved_text_def a_acute_def e_acute_def i_acute_def o_acute_def u_acute_def
  inv_question_def inv_exclamation_def newline_def dquote_def squote_def

lemma demo_payment_approved:
  "\<exists>st s'. run_flow (quiet (1 / 2)) demo_session ''confirm_payment'' 1 ''confirmo el pago''
             \<lparr>p_book_id = None, p_quantity = None, p_order_id = None\<rparr> = (Returned st, s')
     \<and> map order_status (orders (committed s')) = [''paid'', ''paid'']
     \<and> payments (committed s')
         = [\<lparr>payment_id = 1, payment_order_id = 8, payment_amount = 10,
             payment_status = ''approved''\<rparr>,
            \<lparr>payment_id = 2, payment_order_id = 7, payment_amount = 25,
             payment_status = ''approved''\<rparr>]
     \<and> r_success (action_result st) = Some True
     \<and> state_trace st = [''VALIDATE_INPUT'', ''LOAD_CONTEXT'', ''APPLY_ACTION'', ''PERSIST'',
          ''BUILD_RESPONSE'']"
  by (simp add: flow_eval)

lemma demo_payment_rejected:
  "\<exists>st s'. run_flow (quiet (9 / 10)) demo_session ''confirm_payment'' 1 ''confirmo el pago''
             \<lparr>p_book_id = None, p_quantity = None, p_order_id = None\<rparr> = (Returned st, s')
     \<and> map order_status (orders (committed s')) = [''created'', ''paid'']
     \<and> payments (committed s')
         = [\<lparr>payment_id = 1, payment_order_id = 8, payment_amount = 10,
             payment_status = ''approved''\<rparr>,
            \<lparr>payment_id = 2, payment_order_id = 7, payment_amount = 25,
             payment_status = ''rejected''\<rparr>]
     \<and> r_success (action_result st) = Some False
     \<and> response st = ''El pago para la orden **#7** fue rechazado. Intenta de nuevo.''"
  by (simp add: flow_eval text_eval)

lemma demo_cancel_paid:
  "\<exists>st s'. run_flow (quiet (1 / 2)) demo_session ''cancel_order'' 1 ''cancelar orden 8''
             \<lparr>p_book_id = None, p_quantity = None, p_order_id = Some 8\<rparr> = (Returned st, s')
     \<and> c_order (flow_ctx st) = Some \<lparr>oc_id = 8, oc_status = ''paid'', oc_total = 10\<rparr>
     \<and> r_message (action_result st)
         = Some ''No se puede cancelar la orden **#8** porque ya fue pagada.''"
  by (simp add: flow_eval text_eval)

text \<open>Witness, on the example store: the approved payment of the pending order 7 takes it
  from \<open>created\<close> to \<open>paid\<close>, an allowed step; the cancellation of the paid order 8 is
  refused with its message and changes nothing.\<close>

theorem order_status_machine_witness:
  "committed demo_session = working demo_session
   \<and> (\<exists>st s'. run_flow (quiet (1 / 2)) demo_session ''confirm_payment'' 1 ''confirmo el pago''
                  \<lparr>p_book_id = None, p_quantity = None, p_order_id = None\<rparr> = (Returned st, s')
         \<and> map order_status (orders (committed demo_session)) = [''created'', ''paid'']
         \<and> map order_status (orders (committed s')) = [''paid'', ''paid'']
         \<and> orders_step ''confirm_payment'' (quiet (1 / 2)) (orders (committed demo_session))
              (orders (committed s')))
   \<and> (\<exists>st. run_flow (quiet (1 / 2)) demo_session ''cancel_order'' 1 ''cancelar orden 8''
               \<lparr>p_book_id = None, p_quantity = None, p_order_id = Some 8\<rparr>
             = (Returned st, demo_session)
         \<and> r_success (action_result st) = Some False
         \<and> response st = ''No se puede cancelar la orden **#8** porque ya fue pagada.'')"
proof -
  have clean: "committed demo_session = working demo_session" by (simp add: demo_session_def)
  from demo_payment_approved obtain st s' where
    pay: "run_flow (quiet (1 / 2)) demo_session ''confirm_payment'' 1 ''confirmo el pago''
             \<lparr>p_book_id = None, p_quantity = None, p_order_id = None\<rparr> = (Returned st, s')"
    and paid: "map order_status (orders (committed s')) = [''paid'', ''paid'']"
    by (elim exE conjE)
  from order_status_machine [OF clean pay]
  have step: "orders_step ''confirm_payment'' (quiet (1 / 2)) (orders (committed demo_session))
      (orders (committed s'))"
    by blast
  have before: "map order_status (orders (committed demo_session)) = [''created'', ''paid'']"
    by (simp add: demo_session_def demo_db_def)
  from demo_cancel_paid obtain st2 s2 where
    cancel: "run_flow (quiet (1 / 2)) demo_session ''cancel_order'' 1 ''cancelar orden 8''
             \<lparr>p_book_id = None, p_quantity = None, p_order_id = Some 8\<rparr> = (Returned st2, s2)"
    and oc: "c_order (flow_ctx st2) = Some \<lparr>oc_id = 8, oc_status = ''paid'', oc_total = 10\<rparr>"
    and msg: "r_message (action_result st2)
         = Some ''No se puede cancelar la orden **#8** porque ya fue pagada.''"
    by blast
  from order_status_machine [OF clean cancel] oc
  have "r_success (action_result st2) = Some False
      \<and> (\<exists>m. r_message (action_result st2) = Some m \<and> response st2 = m) \<and> s2 = demo_session"
    by simp
  then have no: "r_success (action_result st2) = Some False"
    and resp: "response st2 = ''No se puede cancelar la orden **#8** porque ya fue pagada.''"
    and same: "s2 = demo_session"
    using msg by auto
  have a: "\<exists>st s'. run_flow (quiet (1 / 2)) demo_session ''confirm_payment'' 1 ''confirmo el pago''
                  \<lparr>p_book_id = None, p_quantity = None, p_order_id = None\<rparr> = (Returned st, s')
         \<and> map order_status (orders (committed demo_session)) = [''created'', ''paid'']
         \<and> map order_status (orders (committed s')) = [''paid'', ''paid'']
         \<and> orders_step ''confirm_payment'' (quiet (1 / 2)) (orders (committed demo_session))
              (orders (committed s'))"
    by (rule exI [of _ st], rule exI [of _ s'], intro conjI) (rule pay before paid step)+
  have b: "\<exists>st. run_flow (quiet (1 / 2)) demo_session ''cancel_order'' 1 ''cancelar orden 8''
               \<lparr>p_book_id = None, p_quantity = None, p_order_id = Some 8\<rparr>
             = (Returned st, demo_session)
         \<and> r_success (action_result st) = Some False
         \<and> response st = ''No se puede cancelar la orden **#8** porque ya fue pagada.''"
    by (rule exI [of _ st2], intro conjI) (rule cancel [unfolded same] no resp)+
  from clean a b show ?thesis by (intro conjI)
qed

end
